theory Spec2Isabelle
  imports Main "HOL-Library.Multiset"
begin

section \<open>The tree model of script.js\<close>

text \<open>
  A topic or subtopic is a JavaScript object; the optional properties (\<open>icon\<close>,
  \<open>description\<close>, \<open>folderType\<close>, \<open>subtopics\<close>, the three dates) are \<open>None\<close> when the
  object does not have them.  \<open>createTopic\<close> and \<open>createSubtopic\<close> leave \<open>subtopics\<close> out
  for everything that is not a \<open>'folder'\<close>, so "no array" and "empty array" are kept
  apart.
\<close>

text \<open>
  The \<open>id\<close> of an object.  \<open>generateId\<close> gives a number, and so does the array literal of
  \<open>loadDefaultData\<close>, but \<open>performImport\<close> installs the \<open>topics\<close> of the file as they are, so
  an id can also be a string.  The code compares ids with \<open>===\<close>, under which a number and
  a string are never equal, and prints them into storage keys.  Numbers are modelled as
  integers; the other values that a file can hold as an id (\<open>null\<close>, a boolean, an array,
  an object) are left out.
\<close>

datatype jsid = IdNum int | IdStr string

datatype node = Node
  (nid: jsid)
  (name: string)
  (icon: "string option")
  (description: "string option")
  (folderType: "string option")
  (expanded: bool)
  (subtopics: "node list option")
  (createdDate: "string option")
  (uploadDate: "string option")
  (lastModified: "string option")

lemma size_subtopics:
  "subtopics t = Some sub \<Longrightarrow> size_list size sub < size t"
  by (cases t) simp

text \<open>
  \<^verbatim>\<open>function getAllTopicsFlat(topicsList = topics) {
    let flatList = [];
    for (let topic of topicsList) {
        flatList.push(topic);
        if (topic.subtopics) {
            flatList = flatList.concat(getAllTopicsFlat(topic.subtopics));
        }
    }
    return flatList;
}\<close>
  An array is truthy even when it is empty, so the test is "the property is there".
\<close>

function getAllTopicsFlat :: "node list \<Rightarrow> node list" where
  "getAllTopicsFlat [] = []"
| "getAllTopicsFlat (topic # rest) =
     topic # (case subtopics topic of
                None \<Rightarrow> []
              | Some sub \<Rightarrow> getAllTopicsFlat sub) @ getAllTopicsFlat rest"
  by pat_completeness auto
termination
  by (relation "measure (size_list size)") (auto dest: size_subtopics)

text \<open>
  \<^verbatim>\<open>function findTopicById(id, topicsList = topics) {
    for (let topic of topicsList) {
        if (topic.id === id) {
            return topic;
        }
        if (topic.subtopics) {
            const found = findTopicById(id, topic.subtopics);
            if (found) return found;
        }
    }
    return null;
}\<close>
\<close>

function findTopicById :: "jsid \<Rightarrow> node list \<Rightarrow> node option" where
  "findTopicById i [] = None"
| "findTopicById i (topic # rest) =
     (if nid topic = i then Some topic
      else case subtopics topic of
             None \<Rightarrow> findTopicById i rest
           | Some sub \<Rightarrow>
               (case findTopicById i sub of
                  Some found \<Rightarrow> Some found
                | None \<Rightarrow> findTopicById i rest))"
  by pat_completeness auto
termination
  by (relation "measure (\<lambda>(i, ts). size_list size ts)") (auto dest: size_subtopics)

text \<open>
  \<^verbatim>\<open>function countAllItems(item) {
    let count = 1; // Count the item itself
    if (item.subtopics) {
        for (let subtopic of item.subtopics) {
            count += countAllItems(subtopic);
        }
    }
    return count;
}\<close>
\<close>

fun countAllItems :: "node \<Rightarrow> nat" where
  "countAllItems (Node i n ic d ft e st c u l) =
     1 + (case st of
            None \<Rightarrow> 0
          | Some sub \<Rightarrow> sum_list (map countAllItems sub))"

subsection \<open>Assignments to one property of an object\<close>

definition set_name :: "string \<Rightarrow> node \<Rightarrow> node" where
  "set_name v t =
     (case t of Node i n ic d ft e st c u l \<Rightarrow> Node i v ic d ft e st c u l)"

definition set_expanded :: "bool \<Rightarrow> node \<Rightarrow> node" where
  "set_expanded v t =
     (case t of Node i n ic d ft e st c u l \<Rightarrow> Node i n ic d ft v st c u l)"

definition set_subtopics :: "node list option \<Rightarrow> node \<Rightarrow> node" where
  "set_subtopics v t =
     (case t of Node i n ic d ft e st c u l \<Rightarrow> Node i n ic d ft e v c u l)"

definition set_lastModified :: "string option \<Rightarrow> node \<Rightarrow> node" where
  "set_lastModified v t =
     (case t of Node i n ic d ft e st c u l \<Rightarrow> Node i n ic d ft e st c u v)"

text \<open>
  The code mutates the object that \<open>findTopicById\<close> returned (\<open>target.name = newName\<close>,
  \<open>parentTopic.subtopics.push(...)\<close>, \<open>topic.expanded = !topic.expanded\<close>).  The forest is a
  tree of values here, so the assignment is the function below: it walks the forest the
  way \<open>findTopicById\<close> does and replaces the first match \<open>t\<close> by \<open>f t\<close>.
\<close>

function mutateTopicById :: "jsid \<Rightarrow> (node \<Rightarrow> node) \<Rightarrow> node list \<Rightarrow> node list" where
  "mutateTopicById i f [] = []"
| "mutateTopicById i f (topic # rest) =
     (if nid topic = i then f topic # rest
      else case subtopics topic of
             None \<Rightarrow> topic # mutateTopicById i f rest
           | Some sub \<Rightarrow>
               (case findTopicById i sub of
                  Some found \<Rightarrow> set_subtopics (Some (mutateTopicById i f sub)) topic # rest
                | None \<Rightarrow> topic # mutateTopicById i f rest))"
  by pat_completeness auto
termination
  by (relation "measure (\<lambda>(i, f, ts). size_list size ts)") (auto dest: size_subtopics)

text \<open>
  The local function of \<open>deleteTopic\<close>; \<open>arr.splice(i, 1)\<close> removes the element in place,
  so the model returns the array as it is after the call, next to the boolean.
  \<^verbatim>\<open>function removeFromArray(arr) {
    for (let i = 0; i < arr.length; i++) {
        if (arr[i].id === topicId) {
            arr.splice(i, 1);
            return true;
        }
        if (arr[i].subtopics && removeFromArray(arr[i].subtopics)) {
            return true;
        }
    }
    return false;
}\<close>
\<close>

function removeFromArray :: "jsid \<Rightarrow> node list \<Rightarrow> bool \<times> node list" where
  "removeFromArray topicId [] = (False, [])"
| "removeFromArray topicId (topic # rest) =
     (if nid topic = topicId then (True, rest)
      else case subtopics topic of
             None \<Rightarrow>
               (case removeFromArray topicId rest of
                  (removed, rest') \<Rightarrow> (removed, topic # rest'))
           | Some sub \<Rightarrow>
               (case removeFromArray topicId sub of
                  (True, sub') \<Rightarrow> (True, set_subtopics (Some sub') topic # rest)
                | (False, sub') \<Rightarrow>
                    (case removeFromArray topicId rest of
                       (removed, rest') \<Rightarrow>
                         (removed, set_subtopics (Some sub') topic # rest'))))"
  by pat_completeness auto
termination
  by (relation "measure (\<lambda>(i, ts). size_list size ts)") (auto dest: size_subtopics)

text \<open>
  The local function of \<open>deleteSubtopic\<close> has the same loop, behind a guard for a missing
  array:
  \<^verbatim>\<open>function removeSubtopicRecursive(items) {
    if (!items) return false;
    for (let i = 0; i < items.length; i++) {
        if (items[i].id === subtopicId) {
            items.splice(i, 1);
            return true;
        }
        if (items[i].subtopics && removeSubtopicRecursive(items[i].subtopics)) {
            return true;
        }
    }
    return false;
}\<close>
\<close>

definition removeSubtopicRecursive ::
  "jsid \<Rightarrow> node list option \<Rightarrow> bool \<times> node list option" where
  "removeSubtopicRecursive subtopicId items =
     (case items of
        None \<Rightarrow> (False, None)
      | Some arr \<Rightarrow>
          (case removeFromArray subtopicId arr of
             (removed, arr') \<Rightarrow> (removed, Some arr')))"

text \<open>
  The fallback loop of \<open>deleteSubtopic\<close>:
  \<^verbatim>\<open>for (let topic of topics) {
    if (removeSubtopicRecursive(topic.subtopics)) {
        break;
    }
}\<close>
\<close>

fun removeBelowTopics :: "jsid \<Rightarrow> node list \<Rightarrow> node list" where
  "removeBelowTopics subtopicId [] = []"
| "removeBelowTopics subtopicId (topic # rest) =
     (case removeSubtopicRecursive subtopicId (subtopics topic) of
        (True, items') \<Rightarrow> set_subtopics items' topic # rest
      | (False, items') \<Rightarrow> set_subtopics items' topic # removeBelowTopics subtopicId rest)"

section \<open>The storage layer\<close>

subsection \<open>Values and what the browser supplies\<close>

text \<open>
  The values that pass through \<open>saveToStorage\<close> and \<open>getFromStorage\<close>: \<open>null\<close>, a string
  (the base64 text of a PDF or a workbook), and the topics array, which \<open>saveData\<close> puts
  into the in-memory map under \<open>STORAGE_KEY\<close>, the map that \<open>getFromStorage\<close> reads.
\<close>

datatype jsval = JNull | JStr string | JTopics "node list"

fun truthy :: "jsval \<Rightarrow> bool" where
  "truthy JNull = False"
| "truthy (JStr s) = (s \<noteq> [])"
| "truthy (JTopics ts) = True"

fun joinComma :: "string list \<Rightarrow> string" where
  "joinComma [] = []"
| "joinComma [x] = x"
| "joinComma (x # y # r) = x @ '','' @ joinComma (y # r)"

text \<open>
  \<open>String(value)\<close>, which \<open>localStorage.setItem\<close> and \<open>new Blob([value])\<close> apply to a value
  that is not a string: \<open>null\<close> becomes \<open>'null'\<close>, an array of objects the joined
  \<open>'[object Object]'\<close>s.
\<close>

fun toStringJs :: "jsval \<Rightarrow> string" where
  "toStringJs JNull = ''null''"
| "toStringJs (JStr s) = s"
| "toStringJs (JTopics ts) = joinComma (map (\<lambda>t. ''[object Object]'') ts)"

text \<open>\<^verbatim>\<open>size: value ? new Blob([value]).size : 0\<close>, a string being its list of bytes.\<close>

definition blobSize :: "jsval \<Rightarrow> nat" where
  "blobSize v = (if truthy v then length (toStringJs v) else 0)"

text \<open>
  How the selected durable backend behaves during one call: it works, it throws inside
  the \<open>try\<close> block (\<open>db.transaction\<close>, \<open>localStorage.setItem\<close>, \<open>localStorage.getItem\<close>),
  or, for IndexedDB only, the request fires \<open>onerror\<close> and the promise around it rejects
  with \<open>request.error\<close>, whose message is the string.
\<close>

datatype fault = NoFault | Throws | RequestError string

text \<open>
  What the browser supplies to one call: the backend's behaviour, the clock
  (\<open>new Date().toISOString()\<close>), and two library functions whose results the code stores
  and never inspects, \<open>JSON.stringify\<close> on the topics and \<open>String.prototype.toUpperCase\<close>.
\<close>

record env =
  backend :: fault
  now :: string
  stringify :: "node list \<Rightarrow> string"
  toUpperCase :: "string \<Rightarrow> string"

datatype storage_type = IndexedDB | LocalStorage | Memory

text \<open>An object of the IndexedDB store \<open>'pdfs'\<close>: \<open>{id, data, timestamp, size}\<close>.\<close>

record pdf_entry =
  entry_id :: string
  entry_data :: jsval
  entry_timestamp :: string
  entry_size :: nat

text \<open>An object of the IndexedDB store \<open>'topics'\<close>: \<open>{id, data, timestamp, version}\<close>.\<close>

record topics_entry =
  snapshot_id :: string
  snapshot_data :: "node list"
  snapshot_timestamp :: string
  snapshot_version :: string

text \<open>
  A value of the map \<open>inMemoryStorage\<close>: \<open>{data, timestamp, size}\<close> from \<open>saveToStorage\<close>,
  \<open>{data, timestamp, version}\<close> from \<open>saveData\<close>.
\<close>

record memory_item =
  item_data :: jsval
  item_timestamp :: string
  item_size :: "nat option"
  item_version :: "string option"

subsection \<open>The global variables\<close>

text \<open>
  The globals of the script that the modelled functions read or write, the contents of
  the three backends, and three pieces of the page: the messages shown with \<open>alert\<close>, in
  order, and whether each modal dialog is displayed (\<open>style.display\<close>).  \<open>db\<close> is \<open>True\<close> when
  the variable holds a database handle.
\<close>

record app =
  topics :: "node list"
  currentTopicId :: "jsid option"
  currentSubtopicId :: "jsid option"
  renameTargetId :: "int option"
  renameTargetType :: "string option"
  db :: bool
  storageType :: storage_type
  idbTopics :: "string \<rightharpoonup> topics_entry"
  idbPdfs :: "string \<rightharpoonup> pdf_entry"
  localStorage :: "string \<rightharpoonup> string"
  inMemoryStorage :: "string \<rightharpoonup> memory_item"
  alerts :: "string list"
  topicModal :: bool
  subtopicModal :: bool
  renameModal :: bool
  importModal :: bool

definition STORAGE_KEY :: string where
  "STORAGE_KEY = ''asturi_report_topics''"

text \<open>The state the declarations at the top of the script set up.\<close>

definition initialApp :: app where
  "initialApp =
     \<lparr>topics = [], currentTopicId = None, currentSubtopicId = None,
      renameTargetId = None, renameTargetType = None,
      db = False, storageType = Memory,
      idbTopics = Map.empty, idbPdfs = Map.empty, localStorage = Map.empty,
      inMemoryStorage = Map.empty, alerts = [],
      topicModal = False, subtopicModal = False, renameModal = False,
      importModal = False\<rparr>"

text \<open>
  \<open>initializeEnhancedStorage\<close>: IndexedDB if it opens, else \<open>localStorage\<close> if the test
  write works, else memory.  The two booleans are the outcomes of the two probes.
\<close>

definition initializeEnhancedStorage :: "bool \<Rightarrow> bool \<Rightarrow> app \<Rightarrow> app" where
  "initializeEnhancedStorage indexedDBOpens localStorageWorks s =
     (if indexedDBOpens then s\<lparr>db := True, storageType := IndexedDB\<rparr>
      else if localStorageWorks then s\<lparr>storageType := LocalStorage\<rparr>
      else s\<lparr>storageType := Memory\<rparr>)"

subsection \<open>The blob store\<close>

text \<open>
  The statement that appears twice in \<open>saveToStorage\<close>, in the memory branch and in the
  \<open>catch\<close> block:
  \<^verbatim>\<open>inMemoryStorage.set(key, {
    data: value,
    timestamp: new Date().toISOString(),
    size: value ? new Blob([value]).size : 0
});\<close>
\<close>

definition memorySet :: "env \<Rightarrow> string \<Rightarrow> jsval \<Rightarrow> app \<Rightarrow> app" where
  "memorySet e key v s =
     s\<lparr>inMemoryStorage := (inMemoryStorage s)
          (key \<mapsto> \<lparr>item_data = v, item_timestamp = now e,
                    item_size = Some (blobSize v), item_version = None\<rparr>)\<rparr>"

text \<open>
  \<^verbatim>\<open>async function saveToStorage(key, value) {
    try {
        if (db && storageType === 'IndexedDB') {
            const transaction = db.transaction(['pdfs'], 'readwrite');
            const store = transaction.objectStore('pdfs');
            const data = { id: key, data: value, timestamp: ..., size: ... };
            await new Promise((resolve, reject) => {
                const request = store.put(data);
                request.onsuccess = () => resolve();
                request.onerror = () => reject(request.error);
            });
        } else if (storageType === 'localStorage') {
            localStorage.setItem(key, value);
        } else {
            inMemoryStorage.set(key, {...});
        }
    } catch (error) {
        inMemoryStorage.set(key, {...});
    }
}\<close>
  The promise is awaited inside \<open>try\<close>, so a thrown exception and a failed request both
  end in the \<open>catch\<close> block.  \<open>localStorage\<close> has no requests: there only a throw is a
  failure.  \<open>setItem\<close> stores \<open>String(value)\<close>.
\<close>

definition saveToStorage :: "env \<Rightarrow> string \<Rightarrow> jsval \<Rightarrow> app \<Rightarrow> app" where
  "saveToStorage e key v s =
     (if db s \<and> storageType s = IndexedDB then
        (case backend e of
           NoFault \<Rightarrow>
             s\<lparr>idbPdfs := (idbPdfs s)
                  (key \<mapsto> \<lparr>entry_id = key, entry_data = v, entry_timestamp = now e,
                            entry_size = blobSize v\<rparr>)\<rparr>
         | Throws \<Rightarrow> memorySet e key v s
         | RequestError m \<Rightarrow> memorySet e key v s)
      else if storageType s = LocalStorage then
        (case backend e of
           Throws \<Rightarrow> memorySet e key v s
         | _ \<Rightarrow> s\<lparr>localStorage := (localStorage s)(key \<mapsto> toStringJs v)\<rparr>)
      else memorySet e key v s)"

text \<open>
  The two lines that appear twice in \<open>getFromStorage\<close>:
  \<^verbatim>\<open>const item = inMemoryStorage.get(key);
return item ? item.data : null;\<close>
\<close>

definition memoryGet :: "string \<Rightarrow> app \<Rightarrow> jsval" where
  "memoryGet key s =
     (case inMemoryStorage s key of None \<Rightarrow> JNull | Some item \<Rightarrow> item_data item)"

text \<open>The promise that an \<open>async\<close> function returns may reject.\<close>

datatype error = Rejected string

text \<open>
  \<^verbatim>\<open>async function getFromStorage(key) {
    try {
        if (db && storageType === 'IndexedDB') {
            const transaction = db.transaction(['pdfs'], 'readonly');
            const store = transaction.objectStore('pdfs');
            return new Promise((resolve, reject) => {
                const request = store.get(key);
                request.onsuccess = () => {
                    const result = request.result;
                    resolve(result ? result.data : null);
                };
                request.onerror = () => reject(request.error);
            });
        } else if (storageType === 'localStorage') {
            return localStorage.getItem(key);
        } else {
            const item = inMemoryStorage.get(key);
            return item ? item.data : null;
        }
    } catch (error) {
        const item = inMemoryStorage.get(key);
        return item ? item.data : null;
    }
}\<close>
  Here the promise is returned without \<open>await\<close>: the function has left the \<open>try\<close> block
  when the request fails, and the rejection goes to the caller.  Only an exception thrown
  while the request is set up reaches the \<open>catch\<close> block.
\<close>

definition getFromStorage :: "env \<Rightarrow> string \<Rightarrow> app \<Rightarrow> error + jsval" where
  "getFromStorage e key s =
     (if db s \<and> storageType s = IndexedDB then
        (case backend e of
           NoFault \<Rightarrow>
             Inr (case idbPdfs s key of None \<Rightarrow> JNull | Some result \<Rightarrow> entry_data result)
         | Throws \<Rightarrow> Inr (memoryGet key s)
         | RequestError m \<Rightarrow> Inl (Rejected m))
      else if storageType s = LocalStorage then
        (case backend e of
           Throws \<Rightarrow> Inr (memoryGet key s)
         | _ \<Rightarrow> Inr (case localStorage s key of None \<Rightarrow> JNull | Some v \<Rightarrow> JStr v))
      else Inr (memoryGet key s))"

subsection \<open>The tree store\<close>

text \<open>
  The statement that appears twice in \<open>saveData\<close>:
  \<^verbatim>\<open>inMemoryStorage.set(STORAGE_KEY, {
    data: topics,
    timestamp: new Date().toISOString(),
    version: '3.0'
});\<close>
  The map then holds the array itself; the model holds its value at the time of the call.
\<close>

definition memorySnapshot :: "env \<Rightarrow> app \<Rightarrow> app" where
  "memorySnapshot e s =
     s\<lparr>inMemoryStorage := (inMemoryStorage s)
          (STORAGE_KEY \<mapsto> \<lparr>item_data = JTopics (topics s), item_timestamp = now e,
                            item_size = None, item_version = Some ''3.0''\<rparr>)\<rparr>"

text \<open>
  \<open>saveData\<close> has the shape of \<open>saveToStorage\<close>: the object store \<open>'topics'\<close> with
  \<open>{id: STORAGE_KEY, data: topics, timestamp, version: '3.0'}\<close> under an awaited promise,
  \<open>localStorage.setItem(STORAGE_KEY, JSON.stringify(topics))\<close>, or the map; and the map
  again in the \<open>catch\<close> block.
\<close>

definition saveData :: "env \<Rightarrow> app \<Rightarrow> app" where
  "saveData e s =
     (if db s \<and> storageType s = IndexedDB then
        (case backend e of
           NoFault \<Rightarrow>
             s\<lparr>idbTopics := (idbTopics s)
                  (STORAGE_KEY \<mapsto> \<lparr>snapshot_id = STORAGE_KEY, snapshot_data = topics s,
                                    snapshot_timestamp = now e, snapshot_version = ''3.0''\<rparr>)\<rparr>
         | Throws \<Rightarrow> memorySnapshot e s
         | RequestError m \<Rightarrow> memorySnapshot e s)
      else if storageType s = LocalStorage then
        (case backend e of
           Throws \<Rightarrow> memorySnapshot e s
         | _ \<Rightarrow> s\<lparr>localStorage := (localStorage s)(STORAGE_KEY \<mapsto> stringify e (topics s))\<rparr>)
      else memorySnapshot e s)"

section \<open>Editing the tree\<close>

text \<open>
  Each function takes what it reads from the page as arguments: the text of an input
  field after \<open>.value.trim()\<close>, the value of the checked radio button, the answer to
  \<open>confirm\<close>, and the number that \<open>generateId()\<close> returned.  Rendering is left out.
\<close>

text \<open>A number, or \<open>null\<close>, in a condition: \<open>null\<close> and \<open>0\<close> are falsy.\<close>

fun truthyNumber :: "int option \<Rightarrow> bool" where
  "truthyNumber None = False"
| "truthyNumber (Some i) = (i \<noteq> 0)"

text \<open>An id, or \<open>null\<close>, in a condition: \<open>null\<close>, \<open>0\<close> and the empty string are falsy.\<close>

fun truthyId :: "jsid option \<Rightarrow> bool" where
  "truthyId None = False"
| "truthyId (Some (IdNum i)) = (i \<noteq> 0)"
| "truthyId (Some (IdStr k)) = (k \<noteq> [])"

fun truthyString :: "string option \<Rightarrow> bool" where
  "truthyString None = False"
| "truthyString (Some s) = (s \<noteq> [])"

text \<open>\<open>resetMainContent\<close>, without the page: \<open>currentPDF\<close> is not modelled.\<close>

definition resetMainContent :: "app \<Rightarrow> app" where
  "resetMainContent s = s\<lparr>currentTopicId := None, currentSubtopicId := None\<rparr>"

text \<open>
  \<^verbatim>\<open>async function createTopic() {
    const name = document.getElementById('topic-name').value.trim();
    const folderType = document.querySelector('input[name="topic-type"]:checked').value;
    if (name) {
        const newId = generateId();
        const now = new Date().toISOString();
        const newTopic = {
            id: newId,
            name: name.toUpperCase(),
            icon: folderType === 'folder' ? "fas fa-folder" : "fas fa-file-pdf",
            expanded: false,
            folderType: folderType,
            createdDate: now
        };
        // Only add subtopics array for folders
        if (folderType === 'folder') {
            newTopic.subtopics = [];
        }
        topics.push(newTopic);
        await saveData();
        renderTopics();
        closeModal();
    }
}\<close>
\<close>

definition createTopic :: "string \<Rightarrow> string \<Rightarrow> int \<Rightarrow> env \<Rightarrow> app \<Rightarrow> app" where
  "createTopic topicName type newId e s =
     (if topicName \<noteq> [] then
        (let newTopic =
               Node (IdNum newId) (toUpperCase e topicName)
                 (Some (if type = ''folder'' then ''fas fa-folder'' else ''fas fa-file-pdf''))
                 None (Some type) False
                 (if type = ''folder'' then Some [] else None)
                 (Some (now e)) None None
         in (saveData e (s\<lparr>topics := topics s @ [newTopic]\<rparr>))\<lparr>topicModal := False\<rparr>)
      else s)"

text \<open>
  \<^verbatim>\<open>function addSubtopic(topicId) {
    const parentTopic = findTopicById(topicId);
    if (!parentTopic) return;
    // Check if parent can contain subtopics
    if (parentTopic.folderType === 'pdf-folder') {
        alert('PDF folders cannot contain sub-items. Only regular folders can contain other items.');
        return;
    }
    currentTopicId = topicId;
    document.getElementById('subtopic-modal').style.display = 'block';
    ...
}\<close>
\<close>

definition leafAlert :: string where
  "leafAlert =
     ''PDF folders cannot contain sub-items. Only regular folders can contain other items.''"

definition addSubtopic :: "jsid \<Rightarrow> app \<Rightarrow> app" where
  "addSubtopic topicId s =
     (case findTopicById topicId (topics s) of
        None \<Rightarrow> s
      | Some parentTopic \<Rightarrow>
          if folderType parentTopic = Some ''pdf-folder'' then
            s\<lparr>alerts := alerts s @ [leafAlert]\<rparr>
          else s\<lparr>currentTopicId := Some topicId, subtopicModal := True\<rparr>)"

text \<open>
  \<^verbatim>\<open>async function createSubtopic() {
    const name = document.getElementById('subtopic-name').value.trim();
    const description = document.getElementById('subtopic-description').value.trim()
        || 'No description provided';
    const folderType = document.querySelector('input[name="subtopic-type"]:checked').value;
    if (name && currentTopicId) {
        const parentTopic = findTopicById(currentTopicId);
        if (parentTopic) {
            // Initialize subtopics array if it doesn't exist
            if (!parentTopic.subtopics) {
                parentTopic.subtopics = [];
            }
            const newId = generateId();
            const now = new Date().toISOString();
            const newSubtopic = {
                id: newId, name: name, description: description,
                folderType: folderType, expanded: false, createdDate: now
            };
            // Only add subtopics array for folders
            if (folderType === 'folder') {
                newSubtopic.subtopics = [];
            }
            parentTopic.subtopics.push(newSubtopic);
            await saveData();
            renderTopics();
            closeSubtopicModal();
        }
    }
}\<close>
\<close>

definition pushSubtopic :: "node \<Rightarrow> node \<Rightarrow> node" where
  "pushSubtopic newSubtopic parentTopic =
     set_subtopics
       (Some ((case subtopics parentTopic of None \<Rightarrow> [] | Some items \<Rightarrow> items) @ [newSubtopic]))
       parentTopic"

definition createSubtopic :: "string \<Rightarrow> string \<Rightarrow> string \<Rightarrow> int \<Rightarrow> env \<Rightarrow> app \<Rightarrow> app" where
  "createSubtopic subtopicName descriptionText type newId e s =
     (if subtopicName \<noteq> [] \<and> truthyId (currentTopicId s) then
        (case findTopicById (the (currentTopicId s)) (topics s) of
           None \<Rightarrow> s
         | Some parentTopic \<Rightarrow>
             (let newSubtopic =
                    Node (IdNum newId) subtopicName None
                      (Some (if descriptionText = [] then ''No description provided''
                             else descriptionText))
                      (Some type) False
                      (if type = ''folder'' then Some [] else None)
                      (Some (now e)) None None
              in (saveData e
                    (s\<lparr>topics := mutateTopicById (the (currentTopicId s))
                                    (pushSubtopic newSubtopic) (topics s)\<rparr>))
                 \<lparr>subtopicModal := False\<rparr>))
      else s)"

text \<open>
  \<open>createSubtopic\<close> does not look at the \<open>folderType\<close> of the parent: the test for a PDF
  folder is in \<open>addSubtopic\<close> only.
\<close>

definition closeSubtopicModal :: "app \<Rightarrow> app" where
  "closeSubtopicModal s = s\<lparr>subtopicModal := False\<rparr>"

text \<open>
  The assignments of \<open>selectSubtopic\<close>.  What follows them is left out: it fills the
  page, reads \<open>pdf_<id>\<close> from the store and hands a PDF that it finds to the viewer.
  \<^verbatim>\<open>async function selectSubtopic(subtopicId, topicId) {
    const subtopic = findTopicById(subtopicId);
    if (!subtopic || subtopic.folderType !== 'pdf-folder') {
        console.log('Only PDF folders can be selected for viewing');
        return;
    }
    currentSubtopicId = subtopicId;
    currentTopicId = topicId;
    ...
}\<close>
  A PDF folder at the top level is rendered with \<open>selectSubtopic(id, id)\<close>, every other one
  with \<open>selectSubtopic(id, parentId)\<close>.
\<close>

definition selectSubtopic :: "jsid \<Rightarrow> jsid \<Rightarrow> app \<Rightarrow> app" where
  "selectSubtopic subtopicId topicId s =
     (case findTopicById subtopicId (topics s) of
        None \<Rightarrow> s
      | Some subtopic \<Rightarrow>
          if folderType subtopic \<noteq> Some ''pdf-folder'' then s
          else s\<lparr>currentSubtopicId := Some subtopicId, currentTopicId := Some topicId\<rparr>)"

text \<open>
  \<^verbatim>\<open>async function deleteTopic(topicId) {
    const topic = findTopicById(topicId);
    if (!topic) return;
    const itemCount = countAllItems(topic);
    const confirmMessage = itemCount > 1 ? ... : ...;
    if (confirm(confirmMessage)) {
        function removeFromArray(arr) {...}
        removeFromArray(topics);
        if (currentTopicId === topicId || currentSubtopicId === topicId) {
            resetMainContent();
        }
        await saveData();
        renderTopics();
    }
}\<close>
\<close>

definition deleteTopic :: "jsid \<Rightarrow> bool \<Rightarrow> env \<Rightarrow> app \<Rightarrow> app" where
  "deleteTopic topicId confirmed e s =
     (case findTopicById topicId (topics s) of
        None \<Rightarrow> s
      | Some topic \<Rightarrow>
          if confirmed then
            (let s1 = s\<lparr>topics := snd (removeFromArray topicId (topics s))\<rparr>;
                 s2 = (if currentTopicId s1 = Some topicId \<or> currentSubtopicId s1 = Some topicId
                       then resetMainContent s1 else s1)
             in saveData e s2)
          else s)"

text \<open>
  \<^verbatim>\<open>async function deleteSubtopic(subtopicId, parentId) {
    const subtopic = findTopicById(subtopicId);
    if (!subtopic) return;
    ...
    if (confirm(confirmMessage)) {
        function removeSubtopicRecursive(items) {...}
        // Start from the parent topic
        const parentTopic = findTopicById(parentId);
        if (parentTopic && parentTopic.subtopics) {
            removeSubtopicRecursive(parentTopic.subtopics);
        } else {
            // If not found in parent, search all topics
            for (let topic of topics) {
                if (removeSubtopicRecursive(topic.subtopics)) {
                    break;
                }
            }
        }
        if (currentSubtopicId === subtopicId) {
            resetMainContent();
        }
        await saveData();
        renderTopics();
    }
}\<close>
\<close>

definition removeBelowParent :: "jsid \<Rightarrow> node \<Rightarrow> node" where
  "removeBelowParent subtopicId parentTopic =
     set_subtopics (snd (removeSubtopicRecursive subtopicId (subtopics parentTopic))) parentTopic"

definition deleteSubtopic :: "jsid \<Rightarrow> jsid \<Rightarrow> bool \<Rightarrow> env \<Rightarrow> app \<Rightarrow> app" where
  "deleteSubtopic subtopicId parentId confirmed e s =
     (case findTopicById subtopicId (topics s) of
        None \<Rightarrow> s
      | Some subtopic \<Rightarrow>
          if confirmed then
            (let
                 parentHasArray =
                   (case findTopicById parentId (topics s) of
                      None \<Rightarrow> False
                    | Some parentTopic \<Rightarrow> subtopics parentTopic \<noteq> None);
                 s1 = (if parentHasArray
                       then s\<lparr>topics := mutateTopicById parentId
                                           (removeBelowParent subtopicId) (topics s)\<rparr>
                       else s\<lparr>topics := removeBelowTopics subtopicId (topics s)\<rparr>);
                 s2 = (if currentSubtopicId s1 = Some subtopicId
                       then resetMainContent s1 else s1)
             in saveData e s2)
          else s)"

text \<open>
  \<^verbatim>\<open>async function toggleTopic(topicId) {
    const topic = findTopicById(topicId);
    if (topic && (topic.subtopics && topic.subtopics.length > 0)) {
        topic.expanded = !topic.expanded;
        await saveData();
        renderTopics();
    }
}\<close>
  \<open>toggleSubtopic\<close> is the same function under another name.
\<close>

definition hasSubtopics :: "node \<Rightarrow> bool" where
  "hasSubtopics t = (case subtopics t of None \<Rightarrow> False | Some items \<Rightarrow> 0 < length items)"

definition toggleTopic :: "jsid \<Rightarrow> env \<Rightarrow> app \<Rightarrow> app" where
  "toggleTopic topicId e s =
     (case findTopicById topicId (topics s) of
        None \<Rightarrow> s
      | Some topic \<Rightarrow>
          if hasSubtopics topic then
            saveData e
              (s\<lparr>topics := mutateTopicById topicId
                              (\<lambda>t. set_expanded (\<not> expanded t) t) (topics s)\<rparr>)
          else s)"

definition toggleSubtopic :: "jsid \<Rightarrow> env \<Rightarrow> app \<Rightarrow> app" where
  "toggleSubtopic subtopicId e s =
     (case findTopicById subtopicId (topics s) of
        None \<Rightarrow> s
      | Some subtopic \<Rightarrow>
          if hasSubtopics subtopic then
            saveData e
              (s\<lparr>topics := mutateTopicById subtopicId
                              (\<lambda>t. set_expanded (\<not> expanded t) t) (topics s)\<rparr>)
          else s)"

text \<open>
  The context menu stores the id that it reads from the clicked element with \<open>parseInt\<close>,
  a number or \<open>null\<close>, and the kind (\<open>'topic'\<close> or \<open>'subtopic'\<close>), in \<open>renameTargetId\<close> and
  \<open>renameTargetType\<close>.
  \<^verbatim>\<open>function closeRenameModal() {
    document.getElementById('rename-modal').style.display = 'none';
    renameTargetId = null;
    renameTargetType = null;
}

async function confirmRename() {
    const newName = document.getElementById('rename-input').value.trim();
    if (newName && renameTargetId && renameTargetType) {
        const target = findTopicById(renameTargetId);
        if (target) {
            target.name = newName;
            target.lastModified = new Date().toISOString();
            await saveData();
            renderTopics();
            ...
        }
    }
    closeRenameModal();
}\<close>
\<close>

definition closeRenameModal :: "app \<Rightarrow> app" where
  "closeRenameModal s = s\<lparr>renameModal := False, renameTargetId := None, renameTargetType := None\<rparr>"

definition renameNode :: "string \<Rightarrow> string \<Rightarrow> node \<Rightarrow> node" where
  "renameNode newName date target = set_lastModified (Some date) (set_name newName target)"

definition confirmRename :: "string \<Rightarrow> env \<Rightarrow> app \<Rightarrow> app" where
  "confirmRename newName e s =
     closeRenameModal
       (if newName \<noteq> [] \<and> truthyNumber (renameTargetId s) \<and> truthyString (renameTargetType s)
        then
          (case findTopicById (IdNum (the (renameTargetId s))) (topics s) of
             None \<Rightarrow> s
           | Some target \<Rightarrow>
               saveData e
                 (s\<lparr>topics := mutateTopicById (IdNum (the (renameTargetId s)))
                                 (renameNode newName (now e)) (topics s)\<rparr>))
        else s)"

section \<open>Export and import\<close>

subsection \<open>Storage keys\<close>






text \<open>\<open>key.startsWith(prefix)\<close>\<close>

definition startsWith :: "string \<Rightarrow> string \<Rightarrow> bool" where
  "startsWith pre key = (take (length pre) key = pre)"

subsection \<open>The archive\<close>

text \<open>
  What \<open>importData.topics\<close> can be after \<open>JSON.parse\<close>, as far as the test
  \<open>!importData.topics || !Array.isArray(importData.topics)\<close> tells values apart: absent
  or another falsy value, a truthy value that is not an array, or an array.
\<close>

datatype topics_field = Absent | NotAnArray | TopicsArray "node list"

text \<open>
  \<open>{version, timestamp, topics, pdfs}\<close>.  An object is the list of its properties;
  \<open>pdfs\<close> is \<open>None\<close> when the property is missing or falsy.  The file holds
  \<open>JSON.stringify\<close> of the object and \<open>JSON.parse\<close> reads it back; the order in which
  \<open>Object.entries\<close> then enumerates \<open>pdfs\<close> need not be the order of the assignments.
\<close>

record archive =
  version :: string
  timestamp :: string
  topicsField :: topics_field
  pdfs :: "(string \<times> jsval) list option"


text \<open>The two emoji that open the messages of \<open>alert\<close>, in UTF-8.\<close>

definition checkMark :: string where
  "checkMark = [CHR 0xE2, CHR 0x9C, CHR 0x85]"

definition crossMark :: string where
  "crossMark = [CHR 0xE2, CHR 0x9D, CHR 0x8C]"



subsection \<open>Import\<close>

text \<open>
  The loop of \<open>performImport\<close> over \<open>Object.entries(importData.pdfs)\<close>; \<open>es n\<close> is what the
  browser supplies to the \<open>n\<close>-th call of \<open>saveToStorage\<close>.
  \<^verbatim>\<open>for (const [key, value] of Object.entries(importData.pdfs)) {
    await saveToStorage(
        key.startsWith('pdf_') || key.startsWith('excel_') ? key : `pdf_${key}`, value);
}\<close>
\<close>

definition storageKeyOf :: "string \<Rightarrow> string" where
  "storageKeyOf key =
     (if startsWith ''pdf_'' key \<or> startsWith ''excel_'' key then key else ''pdf_'' @ key)"

fun importPdfs :: "(nat \<Rightarrow> env) \<Rightarrow> nat \<Rightarrow> (string \<times> jsval) list \<Rightarrow> app \<Rightarrow> app" where
  "importPdfs es n [] s = s"
| "importPdfs es n ((key, v) # entries) s =
     importPdfs es (Suc n) entries (saveToStorage (es n) (storageKeyOf key) v s)"

text \<open>
  The file chosen in the dialog: none, one whose reading or parsing throws an error with
  the given message, or one that parses to an object.
\<close>

datatype import_file = NoFile | Unreadable string | Parsed archive

text \<open>
  \<^verbatim>\<open>async function performImport() {
    const file = fileInput.files[0];
    if (!file) {
        alert('Please select a file to import.');
        return;
    }
    try {
        const fileContent = await readFileAsText(file);
        const importData = JSON.parse(fileContent);
        // Validate import data
        if (!importData.topics || !Array.isArray(importData.topics)) {
            throw new Error('Invalid data format');
        }
        // Import topics
        topics = importData.topics;
        await saveData();
        // Import PDFs if available
        if (importData.pdfs) {
            for (...) {...}
        }
        // Re-render everything
        renderTopics();
        resetMainContent();
        closeImportModal();
        alert('... Data imported successfully!');
    } catch (error) {
        alert('... Error importing data: ' + error.message);
    }
}\<close>
\<close>

definition importError :: "string \<Rightarrow> app \<Rightarrow> app" where
  "importError m s = s\<lparr>alerts := alerts s @ [crossMark @ '' Error importing data: '' @ m]\<rparr>"

definition performImport :: "env \<Rightarrow> (nat \<Rightarrow> env) \<Rightarrow> import_file \<Rightarrow> app \<Rightarrow> app" where
  "performImport e es file s =
     (case file of
        NoFile \<Rightarrow> s\<lparr>alerts := alerts s @ [''Please select a file to import.'']\<rparr>
      | Unreadable m \<Rightarrow> importError m s
      | Parsed importData \<Rightarrow>
          (case topicsField importData of
             Absent \<Rightarrow> importError ''Invalid data format'' s
           | NotAnArray \<Rightarrow> importError ''Invalid data format'' s
           | TopicsArray ts \<Rightarrow>
               (let s1 = saveData e (s\<lparr>topics := ts\<rparr>);
                    s2 = (case pdfs importData of
                            None \<Rightarrow> s1
                          | Some entries \<Rightarrow> importPdfs es 0 entries s1);
                    s3 = (resetMainContent s2)\<lparr>importModal := False\<rparr>
                in s3\<lparr>alerts := alerts s3 @ [checkMark @ '' Data imported successfully!'']\<rparr>)))"

section \<open>The built-in forest\<close>

text \<open>The array literal of \<open>loadDefaultData\<close>; \<open>date\<close> is the clock reading.\<close>

definition defaultTopics :: "string \<Rightarrow> node list" where
  "defaultTopics date = [
    Node (IdNum 1) ''STANDARD FORMAT FOR FINANCE''
      (Some ''fas fa-folder'') None
      (Some ''folder'') True (Some [
        Node (IdNum 11) ''PROFIT & LOSS STATEMENT''
          None (Some ''Comprehensive profit and loss financial statement'')
          (Some ''pdf-folder'') False None
          (Some date) None None,
        Node (IdNum 12) ''BALANCE SHEET''
          None (Some ''Complete balance sheet report'')
          (Some ''pdf-folder'') False None
          (Some date) None None])
      (Some date) None None,
    Node (IdNum 2) ''REPORT FOR REVENUE''
      (Some ''fas fa-folder'') None
      (Some ''folder'') False (Some [
        Node (IdNum 21) ''Summary of Property Rental''
          None (Some ''Comprehensive property rental revenue summary'')
          (Some ''pdf-folder'') False None
          (Some date) None None])
      (Some date) None None,
    Node (IdNum 3) ''REPORT FOR INVOICE & PAYMENT RECEIVED''
      (Some ''fas fa-folder'') None
      (Some ''folder'') False (Some [
        Node (IdNum 31) ''Rental Lot 74-A, Gebeng''
          None (Some ''Invoice and payment tracking for Lot 74-A, Gebeng'')
          (Some ''pdf-folder'') False None
          (Some date) None None,
        Node (IdNum 32) ''Rental Lot 3/129, Gebeng''
          None (Some ''Invoice and payment tracking for Lot 3/129, Gebeng'')
          (Some ''pdf-folder'') False None
          (Some date) None None,
        Node (IdNum 33) ''Rental Land, Gebeng''
          None (Some ''Invoice and payment tracking for Land, Gebeng'')
          (Some ''pdf-folder'') False None
          (Some date) None None,
        Node (IdNum 34) ''Rental Bangi''
          None (Some ''Invoice and payment tracking for Bangi property'')
          (Some ''pdf-folder'') False None
          (Some date) None None,
        Node (IdNum 35) ''Rental Jalan Kuching - Blok 3''
          None (Some ''Invoice and payment tracking for Jalan Kuching Blok 3'')
          (Some ''pdf-folder'') False None
          (Some date) None None,
        Node (IdNum 36) ''Rental Jalan Kuching - Blok 3A''
          None (Some ''Invoice and payment tracking for Jalan Kuching Blok 3A'')
          (Some ''pdf-folder'') False None
          (Some date) None None,
        Node (IdNum 37) ''Rental Short Term Rental''
          None (Some ''Invoice and payment tracking for short term rentals'')
          (Some ''pdf-folder'') False None
          (Some date) None None,
        Node (IdNum 38) ''Rental of Equipment''
          None (Some ''Invoice and payment tracking for equipment rental'')
          (Some ''pdf-folder'') False None
          (Some date) None None,
        Node (IdNum 39) ''Rental Others''
          None (Some ''Invoice and payment tracking for other rental services'')
          (Some ''pdf-folder'') False None
          (Some date) None None])
      (Some date) None None,
    Node (IdNum 4) ''REPORT FOR COST OF SALES''
      (Some ''fas fa-folder'') None
      (Some ''folder'') False (Some [
        Node (IdNum 41) ''Rental Lot 74-A, Gebeng''
          None (Some ''Cost of sales for Lot 74-A, Gebeng rental'')
          (Some ''pdf-folder'') False None
          (Some date) None None,
        Node (IdNum 42) ''Rental Lot 3/129, Gebeng''
          None (Some ''Cost of sales for Lot 3/129, Gebeng rental'')
          (Some ''pdf-folder'') False None
          (Some date) None None,
        Node (IdNum 43) ''Rental Land, Gebeng''
          None (Some ''Cost of sales for Land, Gebeng rental'')
          (Some ''pdf-folder'') False None
          (Some date) None None,
        Node (IdNum 44) ''Rental Bangi''
          None (Some ''Cost of sales for Bangi rental'')
          (Some ''pdf-folder'') False None
          (Some date) None None,
        Node (IdNum 45) ''Rental Jalan Kuching - Blok 3''
          None (Some ''Cost of sales for Jalan Kuching Blok 3 rental'')
          (Some ''pdf-folder'') False None
          (Some date) None None,
        Node (IdNum 46) ''Rental Jalan Kuching - Blok 3A''
          None (Some ''Cost of sales for Jalan Kuching Blok 3A rental'')
          (Some ''pdf-folder'') False None
          (Some date) None None,
        Node (IdNum 47) ''Rental Short Term Rental''
          None (Some ''Cost of sales for short term rentals'')
          (Some ''pdf-folder'') False None
          (Some date) None None,
        Node (IdNum 48) ''Rental of Equipment''
          None (Some ''Cost of sales for equipment rental'')
          (Some ''pdf-folder'') False None
          (Some date) None None,
        Node (IdNum 49) ''Rental Others''
          None (Some ''Cost of sales for other rental services'')
          (Some ''pdf-folder'') False None
          (Some date) None None])
      (Some date) None None,
    Node (IdNum 5) ''REPORT FOR EXPENSES''
      (Some ''fas fa-folder'') None
      (Some ''folder'') False (Some [
        Node (IdNum 51) ''Salary & Expenses''
          None (Some ''Salary and expense management folder'')
          (Some ''folder'') False (Some [
            Node (IdNum 511) ''Summary Salary & Salary Expenses''
              None (Some ''Summary of all salary and salary-related expenses'')
              (Some ''pdf-folder'') False None
              (Some date) None None,
            Node (IdNum 512) ''Details - Salary''
              None (Some ''Detailed salary breakdown'')
              (Some ''pdf-folder'') False None
              (Some date) None None,
            Node (IdNum 513) ''Details - Salary Expenses''
              None (Some ''Detailed salary-related expenses'')
              (Some ''pdf-folder'') False None
              (Some date) None None])
          (Some date) None None,
        Node (IdNum 52) ''Utilities & Maintenance''
          None (Some ''Utilities and maintenance expenses folder'')
          (Some ''folder'') False (Some [
            Node (IdNum 521) ''Details - Utilities''
              None (Some ''Detailed utilities expenses breakdown'')
              (Some ''pdf-folder'') False None
              (Some date) None None,
            Node (IdNum 522) ''Details - Maintenance and Purchase Order''
              None (Some ''Detailed maintenance and purchase order expenses'')
              (Some ''pdf-folder'') False None
              (Some date) None None,
            Node (IdNum 523) ''Maintenance and Purchase Order (Buildings)''
              None (Some ''Building maintenance: Lot 74-A Office + Factory 1-13, Lot 3/129, Lot 55/129 (Kilang 8), Boulevard Business Park Jalan Kuching, Plaza Paragon Point Bangi'')
              (Some ''pdf-folder'') False None
              (Some date) None None])
          (Some date) None None,
        Node (IdNum 53) ''Taxes & Legal''
          None (Some ''Tax and legal expenses folder'')
          (Some ''folder'') False (Some [
            Node (IdNum 531) ''Details - Cukai Tanah & Cukai Taksiran''
              None (Some ''Land tax and assessment tax details'')
              (Some ''pdf-folder'') False None
              (Some date) None None,
            Node (IdNum 532) ''Cukai Tanah (Land Tax)''
              None (Some ''Land tax for: Lot 74-A Office + Factory 1-13, Lot 3/129, Lot 55/129 (Kilang 8)'')
              (Some ''pdf-folder'') False None
              (Some date) None None,
            Node (IdNum 533) ''Cukai Taksiran (Assessment Tax)''
              None (Some ''Assessment tax for: Boulevard Business Park Jalan Kuching, Plaza Paragon Point Bangi, Lot 55/129 (Kilang 8)'')
              (Some ''pdf-folder'') False None
              (Some date) None None,
            Node (IdNum 534) ''Details - Legal & Consultancy''
              None (Some ''Legal and consultancy fee expenses'')
              (Some ''pdf-folder'') False None
              (Some date) None None])
          (Some date) None None])
      (Some date) None None,
    Node (IdNum 6) ''FORMAT ADDITIONAL FORMS''
      (Some ''fas fa-folder'') None
      (Some ''folder'') False (Some [
        Node (IdNum 61) ''Payment Forms''
          None (Some ''Payment related forms and templates'')
          (Some ''folder'') False (Some [
            Node (IdNum 611) ''PROPOSED PAYMENT FOR APPROVAL - GENERAL''
              None (Some ''General payment approval form'')
              (Some ''pdf-folder'') False None
              (Some date) None None,
            Node (IdNum 612) ''PROPOSED PAYMENT FOR APPROVAL - SALARY''
              None (Some ''Salary payment approval form'')
              (Some ''pdf-folder'') False None
              (Some date) None None,
            Node (IdNum 613) ''PROPOSED PAYMENT FOR APPROVAL - UTILITY''
              None (Some ''Utility payment approval form'')
              (Some ''pdf-folder'') False None
              (Some date) None None,
            Node (IdNum 614) ''PAYMENT REQUEST''
              None (Some ''Payment request form template'')
              (Some ''pdf-folder'') False None
              (Some date) None None])
          (Some date) None None,
        Node (IdNum 62) ''Invoice & Receipt Forms''
          None (Some ''Invoice and receipt templates'')
          (Some ''folder'') False (Some [
            Node (IdNum 621) ''INVOICE''
              None (Some ''Invoice template form'')
              (Some ''pdf-folder'') False None
              (Some date) None None,
            Node (IdNum 622) ''OFFICIAL RECEIPT''
              None (Some ''Official receipt template form'')
              (Some ''pdf-folder'') False None
              (Some date) None None,
            Node (IdNum 623) ''SUMMARY INVOICE LISTING''
              None (Some ''Summary of all invoice listings'')
              (Some ''pdf-folder'') False None
              (Some date) None None,
            Node (IdNum 624) ''SUMMARY OFFICIAL RECEIPT''
              None (Some ''Summary of all official receipts'')
              (Some ''pdf-folder'') False None
              (Some date) None None])
          (Some date) None None])
      (Some date) None None,
    Node (IdNum 7) ''ASSETS''
      (Some ''fas fa-folder'') None
      (Some ''folder'') False (Some [
        Node (IdNum 71) ''LIST OF ASSETS''
          None (Some ''Complete list of 19 company assets'')
          (Some ''pdf-folder'') False None
          (Some date) None None,
        Node (IdNum 72) ''ASSET LISTING''
          None (Some ''Detailed asset listing (19 items - to be filled by Asturi staff)'')
          (Some ''pdf-folder'') False None
          (Some date) None None])
      (Some date) None None,
    Node (IdNum 8) ''VEHICLE MANAGEMENT''
      (Some ''fas fa-folder'') None
      (Some ''folder'') False (Some [
        Node (IdNum 81) ''Vehicle Maintenance & Servicing''
          None (Some ''Vehicle maintenance and servicing records'')
          (Some ''folder'') False (Some [
            Node (IdNum 811) ''ASTURI RESOURCES - Maintenance & Servicing''
              None (Some ''Vehicle maintenance and servicing expenses for Asturi Resources'')
              (Some ''pdf-folder'') False None
              (Some date) None None,
            Node (IdNum 812) ''ASTURI TRUCK & CRANE - Maintenance & Servicing''
              None (Some ''Vehicle maintenance and servicing expenses for Asturi Truck & Crane'')
              (Some ''pdf-folder'') False None
              (Some date) None None,
            Node (IdNum 813) ''PERSONAL VEHICLES - Maintenance & Servicing''
              None (Some ''Personal vehicle maintenance and servicing expenses'')
              (Some ''pdf-folder'') False None
              (Some date) None None])
          (Some date) None None,
        Node (IdNum 82) ''Vehicle Road Tax & Insurance''
          None (Some ''Vehicle road tax and insurance records'')
          (Some ''folder'') False (Some [
            Node (IdNum 821) ''ASTURI RESOURCES - Road Tax & Insurance''
              None (Some ''Vehicle road tax and insurance expenses for Asturi Resources'')
              (Some ''pdf-folder'') False None
              (Some date) None None,
            Node (IdNum 822) ''ASTURI TRUCK & CRANE - Road Tax & Insurance''
              None (Some ''Vehicle road tax and insurance expenses for Asturi Truck & Crane'')
              (Some ''pdf-folder'') False None
              (Some date) None None,
            Node (IdNum 823) ''PERSONAL VEHICLES - Road Tax & Insurance''
              None (Some ''Personal vehicle road tax and insurance expenses'')
              (Some ''pdf-folder'') False None
              (Some date) None None])
          (Some date) None None])
      (Some date) None None]"

definition loadDefaultData :: "env \<Rightarrow> app \<Rightarrow> app" where
  "loadDefaultData e s = s\<lparr>topics := defaultTopics (now e)\<rparr>"

section \<open>Views of a forest\<close>

text \<open>
  To say what an edit leaves alone, a forest is read in depth-first pre-order in two
  ways: the nodes with their \<open>subtopics\<close> property taken away, and the number of children
  of each node (\<open>None\<close> for a node without the property).
\<close>

definition ownProperties :: "node \<Rightarrow> node" where
  "ownProperties t = set_subtopics None t"

definition labels :: "node list \<Rightarrow> node list" where
  "labels ts = map ownProperties (getAllTopicsFlat ts)"

definition childCounts :: "node list \<Rightarrow> nat option list" where
  "childCounts ts = map (\<lambda>t. map_option length (subtopics t)) (getAllTopicsFlat ts)"





section \<open>The states that the interface reaches\<close>

text \<open>
  A PDF folder has no children: its \<open>subtopics\<close> property is missing or is the empty
  array.  The predicate is evaluated over the flat enumeration, so it covers every depth.
\<close>

definition leafWithoutChildren :: "node \<Rightarrow> bool" where
  "leafWithoutChildren t = (folderType t = Some ''pdf-folder'' \<longrightarrow> \<not> hasSubtopics t)"

definition leavesHaveNoChildren :: "node list \<Rightarrow> bool" where
  "leavesHaveNoChildren ts = list_all leafWithoutChildren (getAllTopicsFlat ts)"

text \<open>
  The first run, with nothing persisted: \<open>initializeEnhancedStorage\<close>, then \<open>loadData\<close>,
  which finds no snapshot, calls \<open>loadDefaultData\<close> and saves.
\<close>

definition firstRun :: "bool \<Rightarrow> bool \<Rightarrow> env \<Rightarrow> app" where
  "firstRun indexedDBOpens localStorageWorks e =
     saveData e (loadDefaultData e (initializeEnhancedStorage indexedDBOpens localStorageWorks initialApp))"

text \<open>A file whose forest, if it has one, has no PDF folder with children.\<close>

definition keepsLeaves :: "import_file \<Rightarrow> bool" where
  "keepsLeaves file =
     (case file of
        Parsed importData \<Rightarrow>
          (case topicsField importData of
             TopicsArray ts \<Rightarrow> leavesHaveNoChildren ts
           | _ \<Rightarrow> True)
      | _ \<Rightarrow> True)"

text \<open>
  The parent that a submission of the subtopic form would add to, \<open>currentTopicId\<close>,
  resolves to a PDF folder.
\<close>

definition currentParentIsLeaf :: "app \<Rightarrow> bool" where
  "currentParentIsLeaf s =
     (case currentTopicId s of
        None \<Rightarrow> False
      | Some i \<Rightarrow>
          (case findTopicById i (topics s) of
             None \<Rightarrow> False
           | Some parentTopic \<Rightarrow> folderType parentTopic = Some ''pdf-folder''))"

text \<open>
  The states reached from the first run, one call of a handler at a time: a new topic, a
  click on "+" (\<open>addSubtopic\<close>), a submission of the subtopic form (\<open>createSubtopic\<close>, which
  the Enter key runs whenever the dialog is displayed) in a state where the current
  parent is not a PDF folder, closing that form, a click on a PDF folder
  (\<open>selectSubtopic\<close>), a rename of the entry that the context menu was opened on, the two
  toggles, the two deletions, and the import of a file that \<open>keepsLeaves\<close>.  The
  arguments of each call are arbitrary.
\<close>

inductive reachable :: "app \<Rightarrow> bool" where
  start: "reachable (firstRun indexedDBOpens localStorageWorks e)"
| create_topic: "reachable s \<Longrightarrow> reachable (createTopic topicName type newId e s)"
| add_subtopic: "reachable s \<Longrightarrow> reachable (addSubtopic topicId s)"
| create_subtopic:
    "reachable s \<Longrightarrow> \<not> currentParentIsLeaf s \<Longrightarrow>
     reachable (createSubtopic subtopicName descriptionText type newId e s)"
| close_dialog: "reachable s \<Longrightarrow> reachable (closeSubtopicModal s)"
| select_subtopic: "reachable s \<Longrightarrow> reachable (selectSubtopic subtopicId topicId s)"
| rename:
    "reachable s \<Longrightarrow>
     reachable (confirmRename newName e (s\<lparr>renameTargetId := i, renameTargetType := kind\<rparr>))"
| toggle_topic: "reachable s \<Longrightarrow> reachable (toggleTopic topicId e s)"
| toggle_subtopic: "reachable s \<Longrightarrow> reachable (toggleSubtopic subtopicId e s)"
| delete_topic: "reachable s \<Longrightarrow> reachable (deleteTopic topicId confirmed e s)"
| delete_subtopic:
    "reachable s \<Longrightarrow> reachable (deleteSubtopic subtopicId parentId confirmed e s)"
| import_file:
    "reachable s \<Longrightarrow> keepsLeaves file \<Longrightarrow> reachable (performImport e es file s)"

section \<open>Concrete inputs\<close>

text \<open>
  A browser that works, and one whose durable backend throws; the two library functions
  are stand-ins, since no property depends on what they return.
\<close>

definition sampleEnv :: env where
  "sampleEnv =
     \<lparr>backend = NoFault, now = ''2024-05-01T08:00:00.000Z'',
      stringify = (\<lambda>ts. ''[]''), toUpperCase = (\<lambda>s. s)\<rparr>"

definition throwingEnv :: env where
  "throwingEnv = sampleEnv\<lparr>backend := Throws\<rparr>"

text \<open>A folder that holds a PDF folder and a folder with a PDF folder, and a second root.\<close>

definition leafB :: node where
  "leafB = Node (IdNum 2) ''B'' None (Some ''No description provided'') (Some ''pdf-folder'') False None
             (Some ''2024-05-01T08:00:00.000Z'') None None"

definition leafD :: node where
  "leafD = Node (IdNum 4) ''D'' None (Some ''deep'') (Some ''pdf-folder'') False None
             (Some ''2024-05-01T08:00:00.000Z'') None None"

definition folderC :: node where
  "folderC = Node (IdNum 3) ''C'' None (Some ''inner'') (Some ''folder'') True (Some [leafD])
               (Some ''2024-05-01T08:00:00.000Z'') None None"

definition folderA :: node where
  "folderA = Node (IdNum 1) ''A'' (Some ''fas fa-folder'') None (Some ''folder'') True
               (Some [leafB, folderC]) (Some ''2024-05-01T08:00:00.000Z'') None None"

definition folderE :: node where
  "folderE = Node (IdNum 5) ''E'' (Some ''fas fa-folder'') None (Some ''folder'') False (Some [])
               (Some ''2024-05-01T08:00:00.000Z'') None None"

definition sampleForest :: "node list" where
  "sampleForest = [folderA, folderE]"

text \<open>Two roots with the same id, as an imported file can hold them.\<close>

definition twinX :: node where
  "twinX = Node (IdNum 7) ''X'' None None (Some ''folder'') False (Some []) None None None"

definition twinY :: node where
  "twinY = Node (IdNum 7) ''Y'' None None (Some ''pdf-folder'') False None None None None"

lemmas sample_defs =
  sampleForest_def folderA_def folderE_def folderC_def leafD_def leafB_def

text \<open>The three tiers after start-up, with the sample forest loaded.\<close>

definition idbApp :: app where
  "idbApp = (initializeEnhancedStorage True True initialApp)\<lparr>topics := sampleForest\<rparr>"

definition localStorageApp :: app where
  "localStorageApp = (initializeEnhancedStorage False True initialApp)\<lparr>topics := sampleForest\<rparr>"

definition memoryApp :: app where
  "memoryApp = (initializeEnhancedStorage False False initialApp)\<lparr>topics := sampleForest\<rparr>"

lemmas app_defs =
  idbApp_def localStorageApp_def memoryApp_def initializeEnhancedStorage_def initialApp_def

text \<open>A PDF folder that holds a PDF folder, and a file with that forest.\<close>

definition nestedLeaf :: node where
  "nestedLeaf = Node (IdNum 1) ''P'' None None (Some ''pdf-folder'') False (Some [leafB]) None None None"

definition nestedLeafArchive :: archive where
  "nestedLeafArchive =
     \<lparr>version = ''3.0'', timestamp = ''2024-05-01T08:00:00.000Z'',
      topicsField = TopicsArray [nestedLeaf], pdfs = None\<rparr>"







text \<open>A file that parses to an object without \<open>topics\<close>.\<close>

definition noTopicsArchive :: archive where
  "noTopicsArchive =
     \<lparr>version = ''3.0'', timestamp = ''2024-05-01T08:00:00.000Z'', topicsField = Absent,
      pdfs = Some [(''2'', JStr ''JVBERi0='')]\<rparr>"

text \<open>
  A folder that holds a folder and a PDF folder of the same id, and a file with that
  forest.
\<close>

definition twinParent :: node where
  "twinParent = Node (IdNum 1) ''A'' (Some ''fas fa-folder'') None (Some ''folder'') True
                  (Some [twinX, twinY]) None None None"

definition twinArchive :: archive where
  "twinArchive =
     \<lparr>version = ''3.0'', timestamp = ''2024-05-01T08:00:00.000Z'',
      topicsField = TopicsArray [twinParent], pdfs = None\<rparr>"

text \<open>
  The first run and the import of that file; then a click on "+" at the id 7, which
  resolves to the folder and opens the dialog with \<open>currentTopicId = 7\<close>; then, the dialog
  still open, the deletion of subtopic 7 below 1, which removes the folder and resets
  nothing, \<open>currentSubtopicId\<close> being \<open>null\<close>.
\<close>

definition twinApp :: app where
  "twinApp =
     performImport sampleEnv (\<lambda>n. sampleEnv) (Parsed twinArchive) (firstRun True True sampleEnv)"

definition staleParentApp :: app where
  "staleParentApp =
     deleteSubtopic (IdNum 7) (IdNum 1) True sampleEnv (addSubtopic (IdNum 7) twinApp)"





section \<open>Lookup\<close>

lemma find_append_first:
  "find P (xs @ ys) = (case find P xs of Some x \<Rightarrow> Some x | None \<Rightarrow> find P ys)"
  by (induction xs) auto

lemma findTopicById_preorder:
  "findTopicById i ts = find (\<lambda>t. nid t = i) (getAllTopicsFlat ts)"
  by (induction i ts rule: findTopicById.induct)
     (auto simp: find_append_first split: option.splits)

lemma find_distinct_member:
  "distinct (map nid xs) \<Longrightarrow> n \<in> set xs \<Longrightarrow> find (\<lambda>t. nid t = nid n) xs = Some n"
  by (induction xs) (auto simp: rev_image_eqI)

text \<open>
  Claim C4.  In a forest whose ids are all different, looking up the id of any node of
  the forest, at whatever depth, gives that node; and in every forest the lookup is the
  first match of the depth-first pre-order enumeration.
\<close>

theorem findTopicById_returns_node:
  "(distinct (map nid (getAllTopicsFlat ts)) \<longrightarrow>
      (\<forall>n \<in> set (getAllTopicsFlat ts). findTopicById (nid n) ts = Some n))
   \<and> findTopicById i ts = find (\<lambda>t. nid t = i) (getAllTopicsFlat ts)"
  using find_distinct_member [of "getAllTopicsFlat ts"]
  by (simp add: findTopicById_preorder)

theorem findTopicById_returns_node_witness:
  "distinct (map nid (getAllTopicsFlat sampleForest))
   \<and> leafD \<in> set (getAllTopicsFlat sampleForest)
   \<and> findTopicById (IdNum 4) sampleForest = Some leafD
   \<and> findTopicById (IdNum 4) sampleForest = find (\<lambda>t. nid t = IdNum 4) (getAllTopicsFlat sampleForest)"
proof -
  have d: "distinct (map nid (getAllTopicsFlat sampleForest))"
    by (simp add: sample_defs)
  have m: "leafD \<in> set (getAllTopicsFlat sampleForest)"
    by (simp add: sample_defs)
  have i: "nid leafD = IdNum 4"
    by (simp add: leafD_def)
  from findTopicById_returns_node [of sampleForest "IdNum 4"] d m i show ?thesis
    by auto
qed

section \<open>Counting\<close>

lemma countAllItems_sel:
  "countAllItems t =
     1 + (case subtopics t of None \<Rightarrow> 0 | Some sub \<Rightarrow> sum_list (map countAllItems sub))"
  by (cases t) simp

lemma length_getAllTopicsFlat:
  "length (getAllTopicsFlat ts) = sum_list (map countAllItems ts)"
proof (induction ts rule: getAllTopicsFlat.induct)
  case 1
  show ?case by simp
next
  case (2 topic rest)
  then show ?case
    using countAllItems_sel [of topic] by (cases "subtopics topic") simp_all
qed

text \<open>
  Claim C10.  \<open>getStorageInfo\<close> computes \<open>topicCount\<close> as
  \<open>countAllItems({ subtopics: topics }) - 1\<close>.  Whatever the other properties of the
  synthetic root are, that number is the length of the flat enumeration of the forest.
\<close>

theorem getAllTopicsFlat_length_is_topicCount:
  "int (length (getAllTopicsFlat ts)) =
     int (countAllItems (Node i n ic d ft e (Some ts) c u l)) - 1"
  by (simp add: length_getAllTopicsFlat)

section \<open>The blob store: writing, then reading\<close>


text \<open>
  Claim C8.  With no failure, a read after a write returns the value written on the
  IndexedDB tier and on the memory tier, and the string \<open>String(value)\<close> on the
  \<open>localStorage\<close> tier (the lemma above).  For a string these are the same.  For \<open>null\<close>,
  which \<open>loadSavedPDF\<close> writes to clear a PDF that does not load, they are not: on the
  \<open>localStorage\<close> tier the read returns the four characters \<open>null\<close>.
\<close>

theorem saveToStorage_null_on_localStorage:
  "getFromStorage sampleEnv ''pdf_5'' (saveToStorage sampleEnv ''pdf_5'' JNull localStorageApp)
     = Inr (JStr ''null'')
   \<and> getFromStorage sampleEnv ''pdf_5'' (saveToStorage sampleEnv ''pdf_5'' JNull idbApp)
     = Inr JNull
   \<and> getFromStorage sampleEnv ''pdf_5'' (saveToStorage sampleEnv ''pdf_5'' JNull memoryApp)
     = Inr JNull"
  by (simp add: getFromStorage_def saveToStorage_def memorySet_def memoryGet_def
        sampleEnv_def app_defs)

text \<open>
  Claim C2, as stated, at a concrete input: on the IndexedDB tier a write of \<open>'old'\<close>
  fails and goes to the map; a write of \<open>'new'\<close> under the same key succeeds, reaches
  the object store and leaves the map as it was; the next read throws.  It returns
  \<open>'old'\<close>: not the value written, and not \<open>null\<close>.
\<close>

theorem getFromStorage_stale_fallback:
  "map_option entry_data
     (idbPdfs (saveToStorage sampleEnv ''payload_5'' (JStr ''new'')
                 (saveToStorage throwingEnv ''payload_5'' (JStr ''old'') idbApp)) ''payload_5'')
     = Some (JStr ''new'')
   \<and> inMemoryStorage (saveToStorage sampleEnv ''payload_5'' (JStr ''new'')
                         (saveToStorage throwingEnv ''payload_5'' (JStr ''old'') idbApp))
     = inMemoryStorage (saveToStorage throwingEnv ''payload_5'' (JStr ''old'') idbApp)
   \<and> getFromStorage throwingEnv ''payload_5''
        (saveToStorage sampleEnv ''payload_5'' (JStr ''new'')
           (saveToStorage throwingEnv ''payload_5'' (JStr ''old'') idbApp))
     = Inr (JStr ''old'')"
  by (simp add: getFromStorage_def saveToStorage_def memorySet_def memoryGet_def
        sampleEnv_def throwingEnv_def app_defs)

text \<open>
  Claim C2, amended.  On either durable tier, a write that succeeds puts the value into
  the durable store, where a read that works finds it, and does not touch the in-memory
  map; a read that throws instead returns what the map holds under the key: \<open>null\<close> when
  it has no entry, and otherwise the data of the entry that an earlier failed write left
  there.
\<close>

theorem getFromStorage_after_saveToStorage_fallback:
  assumes "(db s \<and> storageType s = IndexedDB) \<or> storageType s = LocalStorage"
    and "backend e = NoFault"
    and "backend e' = Throws"
  shows "getFromStorage e key (saveToStorage e key v s) =
           Inr (if storageType s = LocalStorage then JStr (toStringJs v) else v)
         \<and> inMemoryStorage (saveToStorage e key v s) = inMemoryStorage s
         \<and> getFromStorage e' key (saveToStorage e key v s) =
             Inr (case inMemoryStorage s key of
                    None \<Rightarrow> JNull
                  | Some item \<Rightarrow> item_data item)"
  using assms
  by (auto simp: getFromStorage_def saveToStorage_def memoryGet_def)

theorem getFromStorage_after_saveToStorage_fallback_witness:
  "getFromStorage throwingEnv ''payload_5''
     (saveToStorage sampleEnv ''payload_5'' (JStr ''JVBERi0='') idbApp) = Inr JNull
   \<and> getFromStorage throwingEnv ''payload_5''
     (saveToStorage sampleEnv ''payload_5'' (JStr ''JVBERi0='') localStorageApp) = Inr JNull
   \<and> getFromStorage throwingEnv ''payload_5''
     (saveToStorage sampleEnv ''payload_5'' (JStr ''new'')
        (saveToStorage throwingEnv ''payload_5'' (JStr ''old'') localStorageApp))
     = Inr (JStr ''old'')"
proof -
  have ok: "backend sampleEnv = NoFault" and bad: "backend throwingEnv = Throws"
    by (simp_all add: sampleEnv_def throwingEnv_def)
  have t1: "(db idbApp \<and> storageType idbApp = IndexedDB) \<or> storageType idbApp = LocalStorage"
    by (simp add: app_defs)
  have t2: "(db localStorageApp \<and> storageType localStorageApp = IndexedDB)
            \<or> storageType localStorageApp = LocalStorage"
    by (simp add: app_defs)
  have t3: "(db (saveToStorage throwingEnv ''payload_5'' (JStr ''old'') localStorageApp)
               \<and> storageType (saveToStorage throwingEnv ''payload_5'' (JStr ''old'') localStorageApp)
                   = IndexedDB)
            \<or> storageType (saveToStorage throwingEnv ''payload_5'' (JStr ''old'') localStorageApp)
                = LocalStorage"
    by (simp add: saveToStorage_def memorySet_def throwingEnv_def sampleEnv_def app_defs)
  have m1: "inMemoryStorage idbApp ''payload_5'' = None"
    and m2: "inMemoryStorage localStorageApp ''payload_5'' = None"
    by (simp_all add: app_defs)
  have m3: "map_option item_data
              (inMemoryStorage (saveToStorage throwingEnv ''payload_5'' (JStr ''old'') localStorageApp)
                 ''payload_5'') = Some (JStr ''old'')"
    by (simp add: saveToStorage_def memorySet_def throwingEnv_def sampleEnv_def app_defs)
  from getFromStorage_after_saveToStorage_fallback [OF t1 ok bad, of "''payload_5''" "JStr ''JVBERi0=''"]
       getFromStorage_after_saveToStorage_fallback [OF t2 ok bad, of "''payload_5''" "JStr ''JVBERi0=''"]
       getFromStorage_after_saveToStorage_fallback [OF t3 ok bad, of "''payload_5''" "JStr ''new''"]
       m1 m2 m3
  show ?thesis
    by (auto split: option.splits)
qed

section \<open>Removing and changing the first match\<close>

lemma getAllTopicsFlat_append:
  "getAllTopicsFlat (xs @ ys) = getAllTopicsFlat xs @ getAllTopicsFlat ys"
  by (induction xs rule: getAllTopicsFlat.induct) auto

lemma getAllTopicsFlat_Cons:
  "getAllTopicsFlat (t # ts) = getAllTopicsFlat [t] @ getAllTopicsFlat ts"
  by simp

lemma set_subtopics_sel [simp]:
  "nid (set_subtopics v t) = nid t"
  "name (set_subtopics v t) = name t"
  "folderType (set_subtopics v t) = folderType t"
  "subtopics (set_subtopics v t) = v"
  by (cases t; simp add: set_subtopics_def)+

lemma set_subtopics_same [simp]: "subtopics t = v \<Longrightarrow> set_subtopics v t = t"
  by (cases t) (simp add: set_subtopics_def)

lemma set_subtopics_twice [simp]: "set_subtopics v (set_subtopics w t) = set_subtopics v t"
  by (cases t) (simp add: set_subtopics_def)

lemma nid_ownProperties [simp]: "nid (ownProperties t) = nid t"
  by (simp add: ownProperties_def)

lemma ownProperties_set_subtopics [simp]: "ownProperties (set_subtopics v t) = ownProperties t"
  by (simp add: ownProperties_def)

lemma labels_simps [simp]:
  "labels [] = []"
  "labels (t # ts) =
     ownProperties t # (case subtopics t of None \<Rightarrow> [] | Some sub \<Rightarrow> labels sub) @ labels ts"
  by (simp_all add: labels_def split: option.splits)

lemma findTopicById_None_iff:
  "findTopicById i ts = None \<longleftrightarrow> (\<forall>t \<in> set (getAllTopicsFlat ts). nid t \<noteq> i)"
  by (auto simp: findTopicById_preorder find_None_iff)

lemma findTopicById_None_labels:
  "findTopicById i ts = None \<longleftrightarrow> (\<forall>l \<in> set (labels ts). nid l \<noteq> i)"
  by (auto simp: findTopicById_None_iff labels_def)

lemma findTopicById_nid: "findTopicById i ts = Some t \<Longrightarrow> nid t = i"
  by (auto simp: findTopicById_preorder find_Some_iff)

lemma removeFromArray_missing:
  "findTopicById i ts = None \<Longrightarrow> removeFromArray i ts = (False, ts)"
  by (induction i ts rule: removeFromArray.induct)
     (auto split: option.splits if_splits)

lemma removeFromArray_found:
  "findTopicById i ts = Some t \<Longrightarrow>
   \<exists>pre post. fst (removeFromArray i ts) \<and> labels ts = pre @ labels [t] @ post
     \<and> labels (snd (removeFromArray i ts)) = pre @ post \<and> (\<forall>l \<in> set pre. nid l \<noteq> i)"
proof (induction i ts rule: removeFromArray.induct)
  case (1 topicId)
  then show ?case by simp
next
  case (2 topicId topic rest)
  show ?case
  proof (cases "nid topic = topicId")
    case True
    with 2 have "t = topic" by simp
    with True show ?thesis
      by (intro exI [of _ "[]"] exI [of _ "labels rest"]) simp
  next
    case ne: False
    show ?thesis
    proof (cases "subtopics topic")
      case None
      with ne 2 have f: "findTopicById topicId rest = Some t" by simp
      from "2.IH"(1) [OF ne None f] obtain pre post where
        h: "fst (removeFromArray topicId rest)" "labels rest = pre @ labels [t] @ post"
           "labels (snd (removeFromArray topicId rest)) = pre @ post" "\<forall>l \<in> set pre. nid l \<noteq> topicId"
        by blast
      with ne None show ?thesis
        by (intro exI [of _ "ownProperties topic # pre"] exI [of _ post])
           (auto split: prod.splits)
    next
      case (Some sub)
      show ?thesis
      proof (cases "findTopicById topicId sub")
        case inner: (Some found)
        with ne Some 2 have ft: "found = t" by simp
        from "2.IH"(2) [OF ne Some] inner ft obtain pre post where
          h: "fst (removeFromArray topicId sub)" "labels sub = pre @ labels [t] @ post"
             "labels (snd (removeFromArray topicId sub)) = pre @ post" "\<forall>l \<in> set pre. nid l \<noteq> topicId"
          by blast
        with ne Some show ?thesis
          by (intro exI [of _ "ownProperties topic # pre"] exI [of _ "post @ labels rest"])
             (auto split: prod.splits bool.splits)
      next
        case inner: None
        then have r: "removeFromArray topicId sub = (False, sub)"
          by (rule removeFromArray_missing)
        from inner ne Some 2 have f: "findTopicById topicId rest = Some t" by simp
        from "2.IH"(3) [OF ne Some r [symmetric] _ f] obtain pre post where
          h: "fst (removeFromArray topicId rest)" "labels rest = pre @ labels [t] @ post"
             "labels (snd (removeFromArray topicId rest)) = pre @ post" "\<forall>l \<in> set pre. nid l \<noteq> topicId"
          by auto
        from inner have "\<forall>l \<in> set (labels sub). nid l \<noteq> topicId"
          by (simp add: findTopicById_None_labels)
        with h ne Some r show ?thesis
          by (intro exI [of _ "ownProperties topic # labels sub @ pre"] exI [of _ post])
             (auto split: prod.splits)
      qed
    qed
  qed
qed

lemma childCounts_simps [simp]:
  "childCounts [] = []"
  "childCounts (t # ts) =
     map_option length (subtopics t)
       # (case subtopics t of None \<Rightarrow> [] | Some sub \<Rightarrow> childCounts sub) @ childCounts ts"
  by (simp_all add: childCounts_def split: option.splits)

lemma mutateTopicById_missing:
  "findTopicById i ts = None \<Longrightarrow> mutateTopicById i f ts = ts"
  by (induction i f ts rule: mutateTopicById.induct)
     (auto split: option.splits if_splits)

lemma length_mutateTopicById [simp]:
  "length (mutateTopicById i f ts) = length ts"
  by (induction i f ts rule: mutateTopicById.induct)
     (auto split: option.splits)


section \<open>Deleting\<close>

lemma topics_saveData [simp]: "topics (saveData e s) = topics s"
  by (simp add: saveData_def memorySnapshot_def split: fault.splits)

lemma topics_resetMainContent [simp]: "topics (resetMainContent s) = topics s"
  by (simp add: resetMainContent_def)

lemma topics_deleteTopic:
  "findTopicById topicId (topics s) = Some t \<Longrightarrow>
   topics (deleteTopic topicId True e s) = snd (removeFromArray topicId (topics s))"
  by (simp add: deleteTopic_def Let_def)

lemma length_labels [simp]: "length (labels ts) = length (getAllTopicsFlat ts)"
  by (simp add: labels_def)

lemma map_nid_labels [simp]: "map nid (labels ts) = map nid (getAllTopicsFlat ts)"
  by (simp add: labels_def)

lemma length_flat_single: "length (getAllTopicsFlat [t]) = countAllItems t"
  using length_getAllTopicsFlat [of "[t]"] by simp

text \<open>
  Claim C3, amended.  When the id is in the forest, a confirmed \<open>deleteTopic\<close> removes the
  first node with that id in pre-order, wherever it is nested, together with its subtree
  and nothing else: the node count goes down by exactly \<open>countAllItems\<close> of that node.
  When the ids of the forest are all different, the id no longer resolves afterwards.
\<close>

theorem deleteTopic_removes_subtree:
  assumes "findTopicById topicId (topics s) = Some t"
  shows "\<exists>pre post.
           labels (topics s) = pre @ labels [t] @ post
         \<and> labels (topics (deleteTopic topicId True e s)) = pre @ post
         \<and> (\<forall>l \<in> set pre. nid l \<noteq> topicId)
         \<and> length (getAllTopicsFlat (topics (deleteTopic topicId True e s))) + countAllItems t
             = length (getAllTopicsFlat (topics s))
         \<and> (distinct (map nid (getAllTopicsFlat (topics s))) \<longrightarrow>
              findTopicById topicId (topics (deleteTopic topicId True e s)) = None)"
proof -
  let ?ts' = "topics (deleteTopic topicId True e s)"
  from removeFromArray_found [OF assms] topics_deleteTopic [OF assms, of e]
  obtain pre post where
    h: "labels (topics s) = pre @ labels [t] @ post" "labels ?ts' = pre @ post"
       "\<forall>l \<in> set pre. nid l \<noteq> topicId"
    by auto
  have "length (labels ?ts') + length (labels [t]) = length (labels (topics s))"
    using h by simp
  then have count: "length (getAllTopicsFlat ?ts') + countAllItems t
                     = length (getAllTopicsFlat (topics s))"
    by (simp only: length_labels length_flat_single)
  have gone: "findTopicById topicId ?ts' = None"
    if d: "distinct (map nid (getAllTopicsFlat (topics s)))"
  proof -
    have i: "nid t = topicId" using assms by (rule findTopicById_nid)
    from d have "distinct (map nid (labels (topics s)))" by simp
    with h(1) i have "topicId \<notin> nid ` set pre" "topicId \<notin> nid ` set post"
      by auto
    with h(2) have "\<forall>l \<in> set (labels ?ts'). nid l \<noteq> topicId" by auto
    then show ?thesis by (simp only: findTopicById_None_labels)
  qed
  from h count gone show ?thesis by blast
qed

text \<open>
  Claim C3, as stated, at a concrete input: with two nodes of the same id the first is
  removed and the id still resolves, to the second.
\<close>

theorem deleteTopic_duplicate_id:
  "findTopicById (IdNum 7) (topics (idbApp\<lparr>topics := [twinX, twinY]\<rparr>)) = Some twinX
   \<and> findTopicById (IdNum 7) (topics (deleteTopic (IdNum 7) True sampleEnv (idbApp\<lparr>topics := [twinX, twinY]\<rparr>)))
       = Some twinY"
  by (simp add: deleteTopic_def Let_def twinX_def twinY_def)

theorem deleteTopic_removes_subtree_witness:
  "findTopicById (IdNum 3) (topics idbApp) = Some folderC
   \<and> distinct (map nid (getAllTopicsFlat (topics idbApp)))
   \<and> length (getAllTopicsFlat (topics (deleteTopic (IdNum 3) True sampleEnv idbApp))) + 2 = 5
   \<and> findTopicById (IdNum 3) (topics (deleteTopic (IdNum 3) True sampleEnv idbApp)) = None
   \<and> map nid (getAllTopicsFlat (topics (deleteTopic (IdNum 3) True sampleEnv idbApp))) = [IdNum 1, IdNum 2, IdNum 5]"
proof -
  have f: "findTopicById (IdNum 3) (topics idbApp) = Some folderC"
    by (simp add: app_defs sample_defs)
  have d: "distinct (map nid (getAllTopicsFlat (topics idbApp)))"
    by (simp add: app_defs sample_defs)
  have c: "countAllItems folderC = 2" "length (getAllTopicsFlat (topics idbApp)) = 5"
    by (simp_all add: app_defs sample_defs)
  have r: "map nid (getAllTopicsFlat (topics (deleteTopic (IdNum 3) True sampleEnv idbApp))) = [IdNum 1, IdNum 2, IdNum 5]"
    unfolding topics_deleteTopic [OF f]
    by (simp add: app_defs sample_defs set_subtopics_def)
  from deleteTopic_removes_subtree [OF f, of sampleEnv] d c r f show ?thesis
    by auto
qed

section \<open>Renaming\<close>

lemma set_name_sel [simp]:
  "nid (set_name v t) = nid t"
  "subtopics (set_name v t) = subtopics t"
  "folderType (set_name v t) = folderType t"
  "name (set_name v t) = v"
  by (cases t; simp add: set_name_def)+

lemma set_lastModified_sel [simp]:
  "nid (set_lastModified v t) = nid t"
  "subtopics (set_lastModified v t) = subtopics t"
  "folderType (set_lastModified v t) = folderType t"
  "name (set_lastModified v t) = name t"
  "lastModified (set_lastModified v t) = v"
  by (cases t; simp add: set_lastModified_def)+


lemma subtopics_renameNode [simp]: "subtopics (renameNode newName date t) = subtopics t"
  by (simp add: renameNode_def)




section \<open>Importing a file without topics\<close>

text \<open>
  Claim C6.  When \<open>topics\<close> is absent from the parsed file, or is not an array,
  \<open>performImport\<close> shows the message of the error \<open>'Invalid data format'\<close> and changes
  nothing else: the forest is the one from before the call, and no backend has been
  written to.
\<close>

theorem performImport_invalid_format:
  assumes "topicsField importData = Absent \<or> topicsField importData = NotAnArray"
  shows "performImport e es (Parsed importData) s
           = s\<lparr>alerts := alerts s @ [crossMark @ '' Error importing data: Invalid data format'']\<rparr>
         \<and> topics (performImport e es (Parsed importData) s) = topics s
         \<and> idbTopics (performImport e es (Parsed importData) s) = idbTopics s
         \<and> idbPdfs (performImport e es (Parsed importData) s) = idbPdfs s
         \<and> localStorage (performImport e es (Parsed importData) s) = localStorage s
         \<and> inMemoryStorage (performImport e es (Parsed importData) s) = inMemoryStorage s"
  using assms by (auto simp: performImport_def importError_def)

theorem performImport_invalid_format_witness:
  "topicsField noTopicsArchive = Absent
   \<and> topics (performImport sampleEnv (\<lambda>n. sampleEnv) (Parsed noTopicsArchive) idbApp) = sampleForest
   \<and> alerts (performImport sampleEnv (\<lambda>n. sampleEnv) (Parsed noTopicsArchive) idbApp)
       = [crossMark @ '' Error importing data: Invalid data format'']
   \<and> idbPdfs (performImport sampleEnv (\<lambda>n. sampleEnv) (Parsed noTopicsArchive) idbApp) ''pdf_2''
       = None"
proof -
  have a: "topicsField noTopicsArchive = Absent \<or> topicsField noTopicsArchive = NotAnArray"
    by (simp add: noTopicsArchive_def)
  have b: "topics idbApp = sampleForest" "alerts idbApp = []" "idbPdfs idbApp ''pdf_2'' = None"
    by (simp_all add: app_defs)
  from performImport_invalid_format [OF a, of sampleEnv "\<lambda>n. sampleEnv" idbApp] a b
  show ?thesis by (simp add: noTopicsArchive_def)
qed

section \<open>Adding below a PDF folder\<close>

lemma fields_saveData [simp]:
  "currentTopicId (saveData e s) = currentTopicId s"
  "currentSubtopicId (saveData e s) = currentSubtopicId s"
  "subtopicModal (saveData e s) = subtopicModal s"
  "alerts (saveData e s) = alerts s"
  by (simp_all add: saveData_def memorySnapshot_def split: fault.splits)

lemma twinApp_fields:
  "topics twinApp = [twinParent]"
  "currentTopicId twinApp = None"
  "currentSubtopicId twinApp = None"
  by (simp_all add: twinApp_def performImport_def twinArchive_def Let_def resetMainContent_def)

lemma twinDialog_fields:
  "topics (addSubtopic (IdNum 7) twinApp) = [twinParent]"
  "currentTopicId (addSubtopic (IdNum 7) twinApp) = Some (IdNum 7)"
  "currentSubtopicId (addSubtopic (IdNum 7) twinApp) = None"
  "subtopicModal (addSubtopic (IdNum 7) twinApp)"
  by (simp_all add: addSubtopic_def twinApp_fields twinParent_def twinX_def twinY_def)

lemma staleParentApp_fields:
  "topics staleParentApp = [set_subtopics (Some [twinY]) twinParent]"
  "currentTopicId staleParentApp = Some (IdNum 7)"
  "subtopicModal staleParentApp"
  by (simp_all add: staleParentApp_def deleteSubtopic_def twinDialog_fields Let_def
        removeBelowParent_def removeSubtopicRecursive_def twinParent_def twinX_def twinY_def
        set_subtopics_def)

text \<open>
  Claim C5, as stated, at two concrete inputs.  The id 99 is not in the forest, and
  \<open>addSubtopic\<close> shows nothing: it returns, and no rejection reaches the user.  In the
  state \<open>staleParentApp\<close> the dialog is open and \<open>currentTopicId\<close> resolves to a PDF
  folder; \<open>createSubtopic\<close>, which does not test the kind of the parent, shows nothing
  either and gives the PDF folder a child.
\<close>

theorem insertChild_silent_or_below_leaf:
  "findTopicById (IdNum 99) (topics idbApp) = None
   \<and> alerts (addSubtopic (IdNum 99) idbApp) = alerts idbApp
   \<and> currentTopicId staleParentApp = Some (IdNum 7)
   \<and> subtopicModal staleParentApp
   \<and> findTopicById (IdNum 7) (topics staleParentApp) = Some twinY
   \<and> folderType twinY = Some ''pdf-folder''
   \<and> alerts (createSubtopic ''child'' [] ''folder'' 8 sampleEnv staleParentApp)
       = alerts staleParentApp
   \<and> map_option (map nid)
        (subtopics (the (findTopicById (IdNum 7)
           (topics (createSubtopic ''child'' [] ''folder'' 8 sampleEnv staleParentApp)))))
       = Some [IdNum 8]"
  by (simp add: staleParentApp_fields addSubtopic_def createSubtopic_def pushSubtopic_def Let_def
        app_defs sample_defs twinParent_def twinX_def twinY_def set_subtopics_def)

text \<open>
  Claim C5, amended.  \<open>addSubtopic\<close>, the handler of the "+" button: when the parent id
  does not resolve it returns at once, the state is the one from before and no message
  is shown; when it resolves to a PDF folder it shows its message and changes nothing
  else; and it never changes the forest.  \<open>createSubtopic\<close>, the submission of the form:
  when \<open>currentTopicId\<close> is \<open>null\<close> or does not resolve, the state is the one from before
  and no message is shown.
\<close>

theorem addSubtopic_rejects_leaf_silent_when_unresolved:
  "(findTopicById parentId (topics s) = None \<longrightarrow> addSubtopic parentId s = s)
   \<and> (\<forall>parentTopic.
        findTopicById parentId (topics s) = Some parentTopic
        \<and> folderType parentTopic = Some ''pdf-folder'' \<longrightarrow>
          addSubtopic parentId s = s\<lparr>alerts := alerts s @ [leafAlert]\<rparr>)
   \<and> topics (addSubtopic parentId s) = topics s
   \<and> (currentTopicId s = None \<or> findTopicById (the (currentTopicId s)) (topics s) = None \<longrightarrow>
        createSubtopic subtopicName descriptionText type newId e s = s)"
  by (auto simp: addSubtopic_def createSubtopic_def split: option.splits)

theorem addSubtopic_rejects_leaf_silent_when_unresolved_witness:
  "findTopicById (IdNum 4) (topics idbApp) = Some leafD
   \<and> folderType leafD = Some ''pdf-folder''
   \<and> addSubtopic (IdNum 4) idbApp = idbApp\<lparr>alerts := [leafAlert]\<rparr>
   \<and> topics (addSubtopic (IdNum 4) idbApp) = sampleForest
   \<and> findTopicById (IdNum 99) (topics idbApp) = None
   \<and> addSubtopic (IdNum 99) idbApp = idbApp
   \<and> currentTopicId idbApp = None
   \<and> createSubtopic ''New'' [] ''folder'' 6 sampleEnv idbApp = idbApp
   \<and> createSubtopic ''New'' [] ''folder'' 6 sampleEnv
         (idbApp\<lparr>currentTopicId := Some (IdNum 99), subtopicModal := True\<rparr>)
       = idbApp\<lparr>currentTopicId := Some (IdNum 99), subtopicModal := True\<rparr>"
proof -
  have f: "findTopicById (IdNum 4) (topics idbApp) = Some leafD"
    and k: "folderType leafD = Some ''pdf-folder''"
    and n: "findTopicById (IdNum 99) (topics idbApp) = None"
    and t: "topics idbApp = sampleForest" "alerts idbApp = []" "currentTopicId idbApp = None"
    by (simp_all add: app_defs sample_defs)
  from addSubtopic_rejects_leaf_silent_when_unresolved
         [of "IdNum 4" idbApp "''New''" "[]" "''folder''" 6 sampleEnv]
       addSubtopic_rejects_leaf_silent_when_unresolved
         [of "IdNum 99" idbApp "''New''" "[]" "''folder''" 6 sampleEnv]
       addSubtopic_rejects_leaf_silent_when_unresolved
         [of "IdNum 99" "idbApp\<lparr>currentTopicId := Some (IdNum 99), subtopicModal := True\<rparr>"
             "''New''" "[]" "''folder''" 6 sampleEnv]
       f k n t
  show ?thesis by auto
qed

section \<open>Export, then import\<close>

subsection \<open>Keys\<close>







lemma startsWith_append [simp]: "startsWith pre (pre @ key)"
  by (simp add: startsWith_def)


lemma excel_key [simp]:
  "\<not> startsWith ''pdf_'' (CHR ''e'' # key)"
  "storageKeyOf (CHR ''e'' # CHR ''x'' # CHR ''c'' # CHR ''e'' # CHR ''l'' # CHR ''_'' # key)
     = CHR ''e'' # CHR ''x'' # CHR ''c'' # CHR ''e'' # CHR ''l'' # CHR ''_'' # key"
  by (simp_all add: storageKeyOf_def startsWith_def)


subsection \<open>Reading and writing\<close>




lemma tier_saveToStorage [simp]:
  "db (saveToStorage e key v s) = db s"
  "storageType (saveToStorage e key v s) = storageType s"
  by (simp_all add: saveToStorage_def memorySet_def split: fault.splits)

lemma tier_importPdfs [simp]:
  "db (importPdfs es n entries s) = db s"
  "storageType (importPdfs es n entries s) = storageType s"
  by (induction entries arbitrary: n s) auto




subsection \<open>The object that the export builds\<close>







subsection \<open>The round trip\<close>

lemma topics_saveToStorage [simp]: "topics (saveToStorage e key v s) = topics s"
  by (simp add: saveToStorage_def memorySet_def split: fault.splits)

lemma topics_importPdfs [simp]: "topics (importPdfs es n entries s) = topics s"
  by (induction entries arbitrary: n s) auto










section \<open>PDF folders stay without children\<close>

lemma leaves_Nil [simp]: "leavesHaveNoChildren []"
  by (simp add: leavesHaveNoChildren_def)

lemma leaves_Cons:
  "leavesHaveNoChildren (t # ts) \<longleftrightarrow>
     leafWithoutChildren t
     \<and> (case subtopics t of None \<Rightarrow> True | Some sub \<Rightarrow> leavesHaveNoChildren sub)
     \<and> leavesHaveNoChildren ts"
  by (simp add: leavesHaveNoChildren_def split: option.splits)

lemma leaves_append:
  "leavesHaveNoChildren (xs @ ys) \<longleftrightarrow> leavesHaveNoChildren xs \<and> leavesHaveNoChildren ys"
  by (simp add: leavesHaveNoChildren_def getAllTopicsFlat_append)

lemma leaf_set_subtopics:
  "leafWithoutChildren t \<Longrightarrow> (sub' \<noteq> [] \<Longrightarrow> hasSubtopics t) \<Longrightarrow>
   leafWithoutChildren (set_subtopics (Some sub') t)"
  by (auto simp: leafWithoutChildren_def hasSubtopics_def)

lemma hasSubtopics_Some: "subtopics t = Some sub \<Longrightarrow> hasSubtopics t \<longleftrightarrow> sub \<noteq> []"
  by (simp add: hasSubtopics_def)

lemma findTopicById_nonempty: "findTopicById i sub = Some t \<Longrightarrow> sub \<noteq> []"
  by auto

lemma leaves_mutateTopicById:
  "leavesHaveNoChildren ts \<Longrightarrow> findTopicById i ts = Some target \<Longrightarrow>
   leavesHaveNoChildren [f target] \<Longrightarrow> leavesHaveNoChildren (mutateTopicById i f ts)"
proof (induction i f ts rule: mutateTopicById.induct)
  case (1 i f)
  then show ?case by simp
next
  case (2 i f topic rest)
  show ?case
  proof (cases "nid topic = i")
    case True
    with 2 have "target = topic" by simp
    with True 2(4,6) show ?thesis
      by (simp add: leaves_Cons)
  next
    case ne: False
    show ?thesis
    proof (cases "subtopics topic")
      case None
      with ne 2(5) have f: "findTopicById i rest = Some target" by simp
      from 2(4) have "leavesHaveNoChildren rest" by (simp add: leaves_Cons)
      from "2.IH"(1) [OF ne None this f 2(6)] 2(4) ne None show ?thesis
        by (simp add: leaves_Cons)
    next
      case (Some sub)
      from 2(4) Some have l: "leafWithoutChildren topic" "leavesHaveNoChildren sub"
        "leavesHaveNoChildren rest"
        by (simp_all add: leaves_Cons)
      show ?thesis
      proof (cases "findTopicById i sub")
        case inner: (Some found)
        with ne Some 2(5) have ft: "found = target" by simp
        from inner have "sub \<noteq> []" by (rule findTopicById_nonempty)
        with Some have "hasSubtopics topic" by (simp add: hasSubtopics_Some)
        with l(1) have "leafWithoutChildren (set_subtopics (Some (mutateTopicById i f sub)) topic)"
          by (simp add: leaf_set_subtopics)
        moreover from "2.IH"(3) [OF ne Some inner l(2) inner [unfolded ft] 2(6)]
        have "leavesHaveNoChildren (mutateTopicById i f sub)" .
        ultimately show ?thesis
          using ne Some inner l(3) by (simp add: leaves_Cons)
      next
        case inner: None
        with ne Some 2(5) have f: "findTopicById i rest = Some target" by simp
        from "2.IH"(2) [OF ne Some inner l(3) f 2(6)] l ne Some inner show ?thesis
          by (simp add: leaves_Cons)
      qed
    qed
  qed
qed

lemma removeFromArray_nonempty: "snd (removeFromArray i ts) \<noteq> [] \<Longrightarrow> ts \<noteq> []"
  by auto

lemma leaves_removeFromArray:
  "leavesHaveNoChildren ts \<Longrightarrow> leavesHaveNoChildren (snd (removeFromArray i ts))"
proof (induction i ts rule: removeFromArray.induct)
  case (1 topicId)
  then show ?case by simp
next
  case (2 topicId topic rest)
  show ?case
  proof (cases "nid topic = topicId")
    case True
    with 2(4) show ?thesis by (simp add: leaves_Cons)
  next
    case ne: False
    show ?thesis
    proof (cases "subtopics topic")
      case None
      from 2(4) have "leavesHaveNoChildren rest" by (simp add: leaves_Cons)
      from "2.IH"(1) [OF ne None this] 2(4) ne None show ?thesis
        by (auto simp: leaves_Cons split: prod.splits)
    next
      case (Some sub)
      from 2(4) Some have l: "leafWithoutChildren topic" "leavesHaveNoChildren sub"
        "leavesHaveNoChildren rest"
        by (simp_all add: leaves_Cons)
      obtain b sub' where r: "removeFromArray topicId sub = (b, sub')"
        by (cases "removeFromArray topicId sub")
      from "2.IH"(2) [OF ne Some l(2)] r have s': "leavesHaveNoChildren sub'" by simp
      from r have "sub' \<noteq> [] \<Longrightarrow> sub \<noteq> []"
        using removeFromArray_nonempty [of topicId sub] by simp
      with Some l(1) have t': "leafWithoutChildren (set_subtopics (Some sub') topic)"
        by (simp add: leaf_set_subtopics hasSubtopics_Some)
      show ?thesis
      proof (cases b)
        case True
        with r ne Some s' t' l(3) show ?thesis
          by (simp add: leaves_Cons)
      next
        case False
        from "2.IH"(3) [OF ne Some r [symmetric] _ l(3)] False
        have "leavesHaveNoChildren (snd (removeFromArray topicId rest))" by simp
        with False r ne Some s' t' show ?thesis
          by (auto simp: leaves_Cons split: prod.splits)
      qed
    qed
  qed
qed

lemma leaves_removeSubtopicRecursive:
  "leavesHaveNoChildren [t] \<Longrightarrow>
   leavesHaveNoChildren [set_subtopics (snd (removeSubtopicRecursive i (subtopics t))) t]"
proof (cases "subtopics t")
  case None
  then show "leavesHaveNoChildren [t] \<Longrightarrow> ?thesis"
    by (simp add: removeSubtopicRecursive_def)
next
  case (Some sub)
  assume a: "leavesHaveNoChildren [t]"
  with Some have l: "leafWithoutChildren t" "leavesHaveNoChildren sub"
    by (simp_all add: leaves_Cons)
  have "snd (removeFromArray i sub) \<noteq> [] \<Longrightarrow> sub \<noteq> []"
    by (rule removeFromArray_nonempty)
  with Some l(1) have "leafWithoutChildren (set_subtopics (Some (snd (removeFromArray i sub))) t)"
    by (simp add: leaf_set_subtopics hasSubtopics_Some)
  with leaves_removeFromArray [OF l(2), of i] Some show ?thesis
    by (auto simp: removeSubtopicRecursive_def leaves_Cons split: prod.splits)
qed

lemma leaves_single_Cons:
  "leavesHaveNoChildren (t # ts) \<longleftrightarrow> leavesHaveNoChildren [t] \<and> leavesHaveNoChildren ts"
  using leaves_append [of "[t]" ts] by simp

lemma leaves_removeBelowTopics:
  "leavesHaveNoChildren ts \<Longrightarrow> leavesHaveNoChildren (removeBelowTopics i ts)"
proof (induction ts)
  case Nil
  then show ?case by simp
next
  case (Cons t ts)
  from Cons.prems have l: "leavesHaveNoChildren [t]" "leavesHaveNoChildren ts"
    using leaves_single_Cons by blast+
  obtain b items' where r: "removeSubtopicRecursive i (subtopics t) = (b, items')"
    by (cases "removeSubtopicRecursive i (subtopics t)")
  with leaves_removeSubtopicRecursive [OF l(1), of i]
  have h: "leavesHaveNoChildren [set_subtopics items' t]" by simp
  show ?case
  proof (cases b)
    case True
    with r have "removeBelowTopics i (t # ts) = set_subtopics items' t # ts" by simp
    with h l(2) show ?thesis
      by (simp only: leaves_single_Cons [of "set_subtopics items' t" ts])
  next
    case False
    with r have "removeBelowTopics i (t # ts) = set_subtopics items' t # removeBelowTopics i ts"
      by simp
    with h Cons.IH [OF l(2)] show ?thesis
      by (simp only: leaves_single_Cons [of "set_subtopics items' t" "removeBelowTopics i ts"])
  qed
qed

lemma leaves_found:
  "leavesHaveNoChildren ts \<Longrightarrow> findTopicById i ts = Some t \<Longrightarrow> leavesHaveNoChildren [t]"
proof (induction i ts rule: findTopicById.induct)
  case (1 i)
  then show ?case by simp
next
  case (2 i topic rest)
  from 2(4) have l: "leavesHaveNoChildren [topic]" "leavesHaveNoChildren rest"
    using leaves_single_Cons by blast+
  show ?case
  proof (cases "nid topic = i")
    case True
    with 2(5) l show ?thesis by simp
  next
    case ne: False
    show ?thesis
    proof (cases "subtopics topic")
      case None
      with ne 2 l show ?thesis by simp
    next
      case (Some sub)
      with l(1) have s: "leavesHaveNoChildren sub" by (simp add: leaves_Cons)
      show ?thesis
      proof (cases "findTopicById i sub")
        case None
        with ne Some 2 l show ?thesis by simp
      next
        case inner: (Some found)
        with ne Some 2(5) have "found = t" by simp
        with "2.IH"(2) [OF ne Some s] inner show ?thesis by simp
      qed
    qed
  qed
qed

lemma leaves_single:
  "leavesHaveNoChildren [t] \<longleftrightarrow>
     leafWithoutChildren t
     \<and> (case subtopics t of None \<Rightarrow> True | Some sub \<Rightarrow> leavesHaveNoChildren sub)"
  by (simp add: leaves_Cons)

lemma leaves_defaultTopics: "leavesHaveNoChildren (defaultTopics date)"
  by (simp add: defaultTopics_def leavesHaveNoChildren_def leafWithoutChildren_def
        hasSubtopics_def)

lemma leaves_firstRun: "leavesHaveNoChildren (topics (firstRun a b e))"
  by (simp add: firstRun_def loadDefaultData_def leaves_defaultTopics)

lemma leaves_createTopic:
  "leavesHaveNoChildren (topics s) \<Longrightarrow>
   leavesHaveNoChildren (topics (createTopic topicName type newId e s))"
  by (simp add: createTopic_def Let_def leaves_append leaves_single leafWithoutChildren_def
        hasSubtopics_def)

lemma leaves_pushSubtopic:
  assumes "leavesHaveNoChildren [parentTopic]" and "folderType parentTopic \<noteq> Some ''pdf-folder''"
    and "leavesHaveNoChildren [newSubtopic]"
  shows "leavesHaveNoChildren [pushSubtopic newSubtopic parentTopic]"
  using assms
  by (auto simp: pushSubtopic_def leaves_single leaves_append leafWithoutChildren_def
        split: option.splits)

lemma topics_addSubtopic [simp]: "topics (addSubtopic topicId s) = topics s"
  by (simp add: addSubtopic_def split: option.splits)

lemma topics_selectSubtopic [simp]: "topics (selectSubtopic subtopicId topicId s) = topics s"
  by (simp add: selectSubtopic_def split: option.splits)

lemma leaves_createSubtopic:
  assumes "leavesHaveNoChildren (topics s)" and "\<not> currentParentIsLeaf s"
  shows "leavesHaveNoChildren (topics (createSubtopic subtopicName descriptionText type newId e s))"
proof (cases "subtopicName \<noteq> [] \<and> truthyId (currentTopicId s)")
  case False
  with assms(1) show ?thesis by (auto simp: createSubtopic_def)
next
  case True
  then obtain topicId where c: "currentTopicId s = Some topicId"
    by (cases "currentTopicId s") auto
  show ?thesis
  proof (cases "findTopicById topicId (topics s)")
    case None
    with c assms(1) show ?thesis by (simp add: createSubtopic_def)
  next
    case (Some parentTopic)
    with c assms(2) have k: "folderType parentTopic \<noteq> Some ''pdf-folder''"
      by (simp add: currentParentIsLeaf_def)
    let ?new = "Node (IdNum newId) subtopicName None
                  (Some (if descriptionText = [] then ''No description provided'' else descriptionText))
                  (Some type) False (if type = ''folder'' then Some [] else None)
                  (Some (now e)) None None"
    have n: "leavesHaveNoChildren [?new]"
      by (simp add: leaves_single leafWithoutChildren_def hasSubtopics_def)
    from assms(1) Some have "leavesHaveNoChildren [parentTopic]" by (rule leaves_found)
    from this k n have "leavesHaveNoChildren [pushSubtopic ?new parentTopic]"
      by (rule leaves_pushSubtopic)
    with assms(1) Some
    have "leavesHaveNoChildren (mutateTopicById topicId (pushSubtopic ?new) (topics s))"
      by (rule leaves_mutateTopicById)
    with True c Some show ?thesis
      by (simp add: createSubtopic_def Let_def)
  qed
qed

lemma leaves_renameNode:
  "leavesHaveNoChildren [t] \<Longrightarrow> leavesHaveNoChildren [renameNode newName date t]"
  by (simp add: leaves_single leafWithoutChildren_def hasSubtopics_def renameNode_def)

lemma set_expanded_sel [simp]:
  "nid (set_expanded v t) = nid t"
  "subtopics (set_expanded v t) = subtopics t"
  "folderType (set_expanded v t) = folderType t"
  by (cases t; simp add: set_expanded_def)+

lemma leaves_set_expanded:
  "leavesHaveNoChildren [t] \<Longrightarrow> leavesHaveNoChildren [set_expanded v t]"
  by (simp add: leaves_single leafWithoutChildren_def hasSubtopics_def)

lemma leaves_confirmRename:
  assumes "leavesHaveNoChildren (topics s)"
  shows "leavesHaveNoChildren (topics (confirmRename newName e s))"
proof (cases "findTopicById (IdNum (the (renameTargetId s))) (topics s)")
  case None
  with assms show ?thesis
    by (simp add: confirmRename_def closeRenameModal_def)
next
  case (Some target)
  with assms have "leavesHaveNoChildren [renameNode newName (now e) target]"
    by (blast intro: leaves_renameNode leaves_found)
  with assms Some
  have "leavesHaveNoChildren
          (mutateTopicById (IdNum (the (renameTargetId s))) (renameNode newName (now e)) (topics s))"
    by (rule leaves_mutateTopicById)
  with assms Some show ?thesis
    by (simp add: confirmRename_def closeRenameModal_def)
qed

lemma leaves_toggleTopic:
  assumes "leavesHaveNoChildren (topics s)"
  shows "leavesHaveNoChildren (topics (toggleTopic topicId e s))"
proof (cases "findTopicById topicId (topics s)")
  case None
  with assms show ?thesis by (simp add: toggleTopic_def)
next
  case (Some topic)
  with assms have "leavesHaveNoChildren [set_expanded (\<not> expanded topic) topic]"
    by (blast intro: leaves_set_expanded leaves_found)
  with assms Some
  have "leavesHaveNoChildren
          (mutateTopicById topicId (\<lambda>t. set_expanded (\<not> expanded t) t) (topics s))"
    by (rule leaves_mutateTopicById)
  with assms Some show ?thesis
    by (simp add: toggleTopic_def)
qed

lemma toggleSubtopic_toggleTopic: "toggleSubtopic = toggleTopic"
  by (intro ext) (simp add: toggleSubtopic_def toggleTopic_def)

lemma leaves_deleteTopic:
  "leavesHaveNoChildren (topics s) \<Longrightarrow>
   leavesHaveNoChildren (topics (deleteTopic topicId confirmed e s))"
  by (simp add: deleteTopic_def Let_def leaves_removeFromArray split: option.splits)

lemma leaves_deleteSubtopic:
  assumes "leavesHaveNoChildren (topics s)"
  shows "leavesHaveNoChildren (topics (deleteSubtopic subtopicId parentId confirmed e s))"
proof -
  have below: "leavesHaveNoChildren (removeBelowTopics subtopicId (topics s))"
    using assms by (rule leaves_removeBelowTopics)
  have parent: "leavesHaveNoChildren
                  (mutateTopicById parentId (removeBelowParent subtopicId) (topics s))"
    if f: "findTopicById parentId (topics s) = Some parentTopic" for parentTopic
  proof -
    from assms f have "leavesHaveNoChildren [parentTopic]" by (rule leaves_found)
    then have "leavesHaveNoChildren [removeBelowParent subtopicId parentTopic]"
      unfolding removeBelowParent_def by (rule leaves_removeSubtopicRecursive)
    with assms f show ?thesis by (rule leaves_mutateTopicById)
  qed
  from assms below parent show ?thesis
    by (auto simp: deleteSubtopic_def Let_def split: option.splits)
qed

lemma leaves_performImport:
  "leavesHaveNoChildren (topics s) \<Longrightarrow> keepsLeaves file \<Longrightarrow>
   leavesHaveNoChildren (topics (performImport e es file s))"
  by (auto simp: performImport_def keepsLeaves_def importError_def Let_def resetMainContent_def
        split: import_file.splits topics_field.splits option.splits)

text \<open>
  Claim C7, as stated, at two concrete inputs.  \<open>performImport\<close> checks only that
  \<open>topics\<close> is an array, so one import after the first run installs a PDF folder with a
  child.  And \<open>createSubtopic\<close> does not test the kind of the parent: the state
  \<open>staleParentApp\<close> is reached by an import of a file in which no PDF folder has a child,
  a click on "+" and a deletion; there \<open>currentTopicId\<close> resolves to a PDF folder, and
  the submission of the form gives that PDF folder a child.
\<close>

theorem leaf_with_children_after_import_or_submission:
  "reachable (firstRun True True sampleEnv)
   \<and> topics (performImport sampleEnv (\<lambda>n. sampleEnv) (Parsed nestedLeafArchive)
               (firstRun True True sampleEnv)) = [nestedLeaf]
   \<and> folderType nestedLeaf = Some ''pdf-folder''
   \<and> subtopics nestedLeaf = Some [leafB]
   \<and> \<not> leavesHaveNoChildren
         (topics (performImport sampleEnv (\<lambda>n. sampleEnv) (Parsed nestedLeafArchive)
                    (firstRun True True sampleEnv)))
   \<and> keepsLeaves (Parsed twinArchive)
   \<and> reachable staleParentApp
   \<and> leavesHaveNoChildren (topics staleParentApp)
   \<and> subtopicModal staleParentApp
   \<and> currentParentIsLeaf staleParentApp
   \<and> \<not> leavesHaveNoChildren
         (topics (createSubtopic ''child'' [] ''folder'' 8 sampleEnv staleParentApp))"
proof -
  have t: "topics (performImport sampleEnv (\<lambda>n. sampleEnv) (Parsed nestedLeafArchive)
               (firstRun True True sampleEnv)) = [nestedLeaf]"
    by (simp add: performImport_def nestedLeafArchive_def Let_def resetMainContent_def)
  have n: "\<not> leavesHaveNoChildren [nestedLeaf]"
    by (simp add: leaves_single leafWithoutChildren_def hasSubtopics_def nestedLeaf_def)
  have k: "keepsLeaves (Parsed twinArchive)"
    by (simp add: keepsLeaves_def twinArchive_def twinParent_def twinX_def twinY_def
          leavesHaveNoChildren_def leafWithoutChildren_def hasSubtopics_def)
  have r: "reachable staleParentApp"
    unfolding staleParentApp_def twinApp_def
    by (intro reachable.delete_subtopic reachable.add_subtopic reachable.import_file
          reachable.start k)
  have l: "leavesHaveNoChildren (topics staleParentApp)"
    by (simp add: staleParentApp_fields twinParent_def twinX_def twinY_def set_subtopics_def
          leavesHaveNoChildren_def leafWithoutChildren_def hasSubtopics_def)
  have c: "currentParentIsLeaf staleParentApp"
    by (simp add: currentParentIsLeaf_def staleParentApp_fields twinParent_def twinX_def
          twinY_def set_subtopics_def)
  have b: "\<not> leavesHaveNoChildren
         (topics (createSubtopic ''child'' [] ''folder'' 8 sampleEnv staleParentApp))"
    by (simp add: createSubtopic_def staleParentApp_fields pushSubtopic_def Let_def
          twinParent_def twinX_def twinY_def set_subtopics_def
          leavesHaveNoChildren_def leafWithoutChildren_def hasSubtopics_def)
  from t n k r l c b show ?thesis
    by (simp add: reachable.start nestedLeaf_def staleParentApp_fields)
qed

text \<open>
  Claim C7, amended.  In every state reached from the built-in forest by creating
  topics, clicking "+", submitting the subtopic form while the current parent is not a
  PDF folder, closing the form, selecting, renaming, toggling, deleting, and importing
  files whose own forest has no PDF folder with children, no PDF folder has children.
\<close>

theorem reachable_leaves_have_no_children:
  "reachable s \<Longrightarrow> leavesHaveNoChildren (topics s)"
proof (induction rule: reachable.induct)
  case (start indexedDBOpens localStorageWorks e)
  show ?case by (rule leaves_firstRun)
next
  case (create_topic s topicName type newId e)
  then show ?case by (simp add: leaves_createTopic)
next
  case (add_subtopic s topicId)
  then show ?case by simp
next
  case (create_subtopic s subtopicName descriptionText type newId e)
  then show ?case by (simp add: leaves_createSubtopic)
next
  case (close_dialog s)
  then show ?case by (simp add: closeSubtopicModal_def)
next
  case (select_subtopic s subtopicId topicId)
  then show ?case by simp
next
  case (rename s newName e i kind)
  then show ?case by (simp add: leaves_confirmRename)
next
  case (toggle_topic s topicId e)
  then show ?case by (simp add: leaves_toggleTopic)
next
  case (toggle_subtopic s subtopicId e)
  then show ?case by (simp add: leaves_toggleTopic toggleSubtopic_toggleTopic)
next
  case (delete_topic s topicId confirmed e)
  then show ?case by (simp add: leaves_deleteTopic)
next
  case (delete_subtopic s subtopicId parentId confirmed e)
  then show ?case by (simp add: leaves_deleteSubtopic)
next
  case (import_file s f e es)
  then show ?case by (simp add: leaves_performImport)
qed

lemma firstRun_fields:
  "topics (firstRun a b e) = defaultTopics (now e)"
  "currentTopicId (firstRun a b e) = None"
  by (simp_all add: firstRun_def loadDefaultData_def initializeEnhancedStorage_def
        initialApp_def)

theorem reachable_leaves_have_no_children_witness:
  "reachable (createSubtopic ''Q3 REPORT'' [] ''pdf-folder'' 1714550400123 sampleEnv
                (addSubtopic (IdNum 1) (firstRun True True sampleEnv)))
   \<and> leavesHaveNoChildren
        (topics (createSubtopic ''Q3 REPORT'' [] ''pdf-folder'' 1714550400123 sampleEnv
                   (addSubtopic (IdNum 1) (firstRun True True sampleEnv))))
   \<and> map_option (map nid)
        (subtopics (hd (topics (createSubtopic ''Q3 REPORT'' [] ''pdf-folder'' 1714550400123
                                  sampleEnv (addSubtopic (IdNum 1) (firstRun True True sampleEnv))))))
       = Some [IdNum 11, IdNum 12, IdNum 1714550400123]"
proof -
  have d: "topics (addSubtopic (IdNum 1) (firstRun True True sampleEnv))
             = defaultTopics (now sampleEnv)"
    "currentTopicId (addSubtopic (IdNum 1) (firstRun True True sampleEnv)) = Some (IdNum 1)"
    by (simp_all add: addSubtopic_def firstRun_fields defaultTopics_def)
  have c: "\<not> currentParentIsLeaf (addSubtopic (IdNum 1) (firstRun True True sampleEnv))"
    by (simp add: currentParentIsLeaf_def d firstRun_fields) (simp add: defaultTopics_def)
  have r: "reachable (createSubtopic ''Q3 REPORT'' [] ''pdf-folder'' 1714550400123 sampleEnv
                (addSubtopic (IdNum 1) (firstRun True True sampleEnv)))"
    by (intro reachable.create_subtopic reachable.add_subtopic reachable.start c)
  have n: "map_option (map nid)
        (subtopics (hd (topics (createSubtopic ''Q3 REPORT'' [] ''pdf-folder'' 1714550400123
                                  sampleEnv (addSubtopic (IdNum 1) (firstRun True True sampleEnv))))))
       = Some [IdNum 11, IdNum 12, IdNum 1714550400123]"
    by (simp add: createSubtopic_def d(2) firstRun_fields defaultTopics_def pushSubtopic_def
          set_subtopics_def Let_def)
  from reachable_leaves_have_no_children [OF r] r n show ?thesis
    by simp
qed

end
